theory Spec2Isabelle
  imports Complex_Main
begin

section \<open>Text\<close>

text \<open>
  A Python \<open>str\<close> is modelled as the \<open>string\<close> of its UTF-8 bytes: an ASCII character
  is one \<open>char\<close>, any other character a sequence of two to four. Looking for an ASCII
  phrase in a text is then the same on bytes as on characters.
\<close>

definition lower_char :: "char \<Rightarrow> char" where
  "lower_char c =
     (case map_of (zip ''ABCDEFGHIJKLMNOPQRSTUVWXYZ'' ''abcdefghijklmnopqrstuvwxyz'') c of
        Some d \<Rightarrow> d
      | None \<Rightarrow> c)"

definition lower :: "string \<Rightarrow> string" where
  \<comment> \<open>\<open>str.lower()\<close> on the ASCII letters; the other bytes stay\<close>
  "lower s = map lower_char s"

primrec starts_with :: "string \<Rightarrow> string \<Rightarrow> bool" where
  \<comment> \<open>\<open>s.startswith(p)\<close>\<close>
  "starts_with s [] = True"
| "starts_with s (p # ps) = (case s of [] \<Rightarrow> False | c # cs \<Rightarrow> c = p \<and> starts_with cs ps)"

primrec str_in :: "string \<Rightarrow> string \<Rightarrow> bool" where
  \<comment> \<open>\<open>needle in hay\<close> on two strings: \<open>needle\<close> occurs as a contiguous piece of \<open>hay\<close>\<close>
  "str_in needle [] = (needle = [])"
| "str_in needle (c # cs) = (starts_with (c # cs) needle \<or> str_in needle cs)"

definition any_in :: "string list \<Rightarrow> string \<Rightarrow> bool" where
  \<comment> \<open>\<open>any(word in text for word in words)\<close>\<close>
  "any_in words text = list_ex (\<lambda>word. str_in word text) words"

section \<open>Context detector\<close>

definition legal_markers :: "string list" where
  "legal_markers =
     [''terms of service'', ''user agreement'', ''privacy policy'', ''legal agreement'',
      ''contract'', ''terms and conditions'', ''terms of use'', ''binding arbitration'',
      ''liability waiver'', ''indemnification'', ''intellectual property'']"

definition partnership_words :: "string list" where
  "partnership_words = [''partnership'', ''collaboration'', ''synergy'', ''strategic alliance'']"

definition client_words :: "string list" where
  "client_words = [''client inquiry'', ''customer inquiry'', ''interested in your services'']"

definition vendor_words :: "string list" where
  "vendor_words = [''vendor'', ''supplier'', ''quote'', ''pricing'']"

definition employment_words :: "string list" where
  "employment_words = [''job offer'', ''employment'', ''hiring'', ''position'', ''salary'']"

definition legal_count :: "string \<Rightarrow> int" where
  \<comment> \<open>\<open>sum(1 for marker in legal_markers if marker in lower)\<close>\<close>
  "legal_count low = sum_list (map (\<lambda>marker. 1) (filter (\<lambda>marker. str_in marker low) legal_markers))"

definition detect_context :: "string \<Rightarrow> string \<Rightarrow> string" where
  "detect_context content content_type =
     (let low = lower content in
      if legal_count low \<ge> 2 \<or> str_in ''terms of service'' low \<or> str_in ''user agreement'' low
        then ''legal_agreement''
      else if any_in partnership_words low then ''partnership_offer''
      else if any_in client_words low then ''client_inquiry''
      else if any_in vendor_words low \<and> \<not> str_in ''contract'' low then ''vendor_proposal''
      else if any_in employment_words low then ''consumer_message''
      else ''consumer_message'')"

section \<open>Characters\<close>

text \<open>
  The rules read the text character by character, a character being one code point: the
  bytes of the text are grouped by the lead byte of each UTF-8 sequence.
\<close>

type_synonym uchar = string

definition is_ascii :: "char \<Rightarrow> bool" where
  "is_ascii c = (\<not> digit7 c)"

definition seq_len :: "char \<Rightarrow> nat" where
  \<comment> \<open>the number of bytes of the UTF-8 sequence that a byte starts\<close>
  "seq_len c =
     (if \<not> digit7 c then 1
      else if \<not> digit6 c then 1
      else if \<not> digit5 c then 2
      else if \<not> digit4 c then 3
      else 4)"

fun chars_of :: "string \<Rightarrow> uchar list" where
  "chars_of [] = []"
| "chars_of (c # cs) = (c # take (seq_len c - 1) cs) # chars_of (drop (seq_len c - 1) cs)"

text \<open>
  What Python's Unicode database decides is a parameter of the model: the lower-casing
  of a text that is not pure ASCII, and whether a character beyond ASCII is a word
  character (\<open>\w\<close>) or white space (\<open>\s\<close>, \<open>str.strip\<close>). On ASCII the three are
  written out.
\<close>

record Unicode =
  uni_lower :: "string \<Rightarrow> string"
  uni_word :: "uchar \<Rightarrow> bool"
  uni_space :: "uchar \<Rightarrow> bool"

definition py_lower :: "Unicode \<Rightarrow> string \<Rightarrow> string" where
  \<comment> \<open>\<open>str.lower()\<close>\<close>
  "py_lower u s = (if list_all is_ascii s then lower s else uni_lower u s)"

definition word_chars :: string where
  \<comment> \<open>the ASCII word characters\<close>
  "word_chars = ''abcdefghijklmnopqrstuvwxyzABCDEFGHIJKLMNOPQRSTUVWXYZ0123456789_''"

definition space_chars :: string where
  \<comment> \<open>the ASCII characters on which \<open>str.isspace\<close> holds\<close>
  "space_chars =
     [CHR 0x09, CHR 0x0A, CHR 0x0B, CHR 0x0C, CHR 0x0D, CHR 0x1C, CHR 0x1D, CHR 0x1E, CHR 0x1F,
      CHR '' '']"

definition upper_chars :: string where
  \<comment> \<open>\<open>A-Z\<close>\<close>
  "upper_chars = ''ABCDEFGHIJKLMNOPQRSTUVWXYZ''"

fun is_word :: "Unicode \<Rightarrow> uchar \<Rightarrow> bool" where
  \<comment> \<open>\<open>\w\<close>\<close>
  "is_word u [c] = (if is_ascii c then c \<in> set word_chars else uni_word u [c])"
| "is_word u ch = uni_word u ch"

fun is_space :: "Unicode \<Rightarrow> uchar \<Rightarrow> bool" where
  \<comment> \<open>\<open>\s\<close>\<close>
  "is_space u [c] = (if is_ascii c then c \<in> set space_chars else uni_space u [c])"
| "is_space u ch = uni_space u ch"

section \<open>Regular expressions\<close>

text \<open>
  The fragment of Python's \<open>re\<close> syntax that the rule patterns use: literal text,
  character classes, greedy \<open>*\<close>, \<open>+\<close> and \<open>?\<close> on one character class,
  concatenation, alternation and the word boundary \<open>\b\<close>. The literals of the patterns
  are ASCII. Matching is by backtracking: from a position, a pattern yields the positions
  where a match can end, in the order in which Python tries them.
\<close>

datatype citem = Lit char | Word | Space | Upper

datatype cset =
    AnyChar \<comment> \<open>\<open>.\<close>: any character but a newline\<close>
  | OneOf "citem list" \<comment> \<open>\<open>[...]\<close>\<close>
  | NoneOf "citem list" \<comment> \<open>\<open>[^...]\<close>\<close>

datatype regex =
    Txt string
  | One cset
  | Star cset
  | Plus cset
  | Opt cset
  | WordB
  | Cat "regex list"
  | Alt "regex list"

fun in_citem :: "Unicode \<Rightarrow> citem \<Rightarrow> uchar \<Rightarrow> bool" where
  "in_citem u (Lit d) ch = (ch = [d])"
| "in_citem u Word ch = is_word u ch"
| "in_citem u Space ch = is_space u ch"
| "in_citem u Upper ch = list_ex (\<lambda>c. ch = [c]) upper_chars"

fun in_cset :: "Unicode \<Rightarrow> cset \<Rightarrow> uchar \<Rightarrow> bool" where
  "in_cset u AnyChar ch = (ch \<noteq> [CHR 0x0A])"
| "in_cset u (OneOf items) ch = list_ex (\<lambda>i. in_citem u i ch) items"
| "in_cset u (NoneOf items) ch = (\<not> list_ex (\<lambda>i. in_citem u i ch) items)"

text \<open>A position in the subject: the character before it, if any, and the characters after it.\<close>

type_synonym pos = "uchar option \<times> uchar list"

fun txt_ends :: "string \<Rightarrow> pos \<Rightarrow> pos list" where
  "txt_ends [] st = [st]"
| "txt_ends (c # cs) (p, []) = []"
| "txt_ends (c # cs) (p, d # ds) = (if d = [c] then txt_ends cs (Some d, ds) else [])"

fun one_ends :: "Unicode \<Rightarrow> cset \<Rightarrow> pos \<Rightarrow> pos list" where
  "one_ends u k (p, []) = []"
| "one_ends u k (p, d # ds) = (if in_cset u k d then [(Some d, ds)] else [])"

fun star_ends :: "Unicode \<Rightarrow> cset \<Rightarrow> pos \<Rightarrow> pos list" where
  \<comment> \<open>greedy: the longest run first, then one character less at a time\<close>
  "star_ends u k (p, []) = [(p, [])]"
| "star_ends u k (p, d # ds) =
     (if in_cset u k d then star_ends u k (Some d, ds) @ [(p, d # ds)] else [(p, d # ds)])"

fun plus_ends :: "Unicode \<Rightarrow> cset \<Rightarrow> pos \<Rightarrow> pos list" where
  "plus_ends u k (p, []) = []"
| "plus_ends u k (p, d # ds) = (if in_cset u k d then star_ends u k (Some d, ds) else [])"

fun opt_ends :: "Unicode \<Rightarrow> cset \<Rightarrow> pos \<Rightarrow> pos list" where
  "opt_ends u k (p, []) = [(p, [])]"
| "opt_ends u k (p, d # ds) =
     (if in_cset u k d then [(Some d, ds), (p, d # ds)] else [(p, d # ds)])"

fun word_before :: "Unicode \<Rightarrow> pos \<Rightarrow> bool" where
  "word_before u (None, s) = False"
| "word_before u (Some ch, s) = is_word u ch"

fun word_after :: "Unicode \<Rightarrow> pos \<Rightarrow> bool" where
  "word_after u (p, []) = False"
| "word_after u (p, d # ds) = is_word u d"

definition wordb_ends :: "Unicode \<Rightarrow> pos \<Rightarrow> pos list" where
  \<comment> \<open>\<open>\b\<close>: exactly one side of the position is a word character\<close>
  "wordb_ends u st = (if word_before u st \<noteq> word_after u st then [st] else [])"

fun ends :: "Unicode \<Rightarrow> regex \<Rightarrow> pos \<Rightarrow> pos list"
  and ends_cat :: "Unicode \<Rightarrow> regex list \<Rightarrow> pos \<Rightarrow> pos list"
  and ends_alt :: "Unicode \<Rightarrow> regex list \<Rightarrow> pos \<Rightarrow> pos list" where
  "ends u (Txt t) st = txt_ends t st"
| "ends u (One k) st = one_ends u k st"
| "ends u (Star k) st = star_ends u k st"
| "ends u (Plus k) st = plus_ends u k st"
| "ends u (Opt k) st = opt_ends u k st"
| "ends u WordB st = wordb_ends u st"
| "ends u (Cat rs) st = ends_cat u rs st"
| "ends u (Alt rs) st = ends_alt u rs st"
| "ends_cat u [] st = [st]"
| "ends_cat u (r # rs) st = concat (map (ends_cat u rs) (ends u r st))"
| "ends_alt u [] st = []"
| "ends_alt u (r # rs) st = ends u r st @ ends_alt u rs st"

fun starts :: "uchar option \<Rightarrow> uchar list \<Rightarrow> pos list" where
  \<comment> \<open>every position of the subject, left to right, the end included\<close>
  "starts p [] = [(p, [])]"
| "starts p (c # cs) = (p, c # cs) # starts (Some c) cs"

definition re_search :: "Unicode \<Rightarrow> regex \<Rightarrow> string \<Rightarrow> bool" where
  \<comment> \<open>\<open>bool(re.search(pattern, s))\<close>\<close>
  "re_search u r s = list_ex (\<lambda>st. ends u r st \<noteq> []) (starts None (chars_of s))"

definition matched :: "pos \<Rightarrow> pos \<Rightarrow> string" where
  \<comment> \<open>the text between a position and a later one\<close>
  "matched st en = concat (take (length (snd st) - length (snd en)) (snd st))"

definition re_find :: "Unicode \<Rightarrow> regex \<Rightarrow> string \<Rightarrow> string option" where
  \<comment> \<open>\<open>re.search(pattern, s)\<close>: the text of the first match, \<open>m.group(0)\<close>\<close>
  "re_find u r s =
     (case filter (\<lambda>st. ends u r st \<noteq> []) (starts None (chars_of s)) of
        [] \<Rightarrow> None
      | st # _ \<Rightarrow> Some (matched st (hd (ends u r st))))"

definition re_find_group :: "Unicode \<Rightarrow> regex \<Rightarrow> regex \<Rightarrow> string \<Rightarrow> string option" where
  \<comment> \<open>\<open>re.search(pre + '(' + grp + ')', s)\<close>: the text of the group, \<open>m.group(1)\<close>\<close>
  "re_find_group u pre grp s =
     (case filter (\<lambda>st. ends u (Cat [pre, grp]) st \<noteq> []) (starts None (chars_of s)) of
        [] \<Rightarrow> None
      | st # _ \<Rightarrow>
          (case filter (\<lambda>mid. ends u grp mid \<noteq> []) (ends u pre st) of
             [] \<Rightarrow> None
           | mid # _ \<Rightarrow> Some (matched mid (hd (ends u grp mid)))))"

section \<open>Signals and rules\<close>

datatype SignalLevel = GREEN | YELLOW | RED

record Signal =
  name :: string
  level :: SignalLevel
  message :: string
  confidence :: real

subsection \<open>Legal clause rule\<close>

definition dots :: regex where
  \<comment> \<open>\<open>.*\<close>\<close>
  "dots = Star AnyChar"

definition dot :: regex where
  \<comment> \<open>\<open>.\<close>\<close>
  "dot = One AnyChar"

definition CONCERNING_PATTERNS :: "(regex \<times> string \<times> string) list" where
  "CONCERNING_PATTERNS =
    [(Alt [Txt ''irrevocably agree'',
           Cat [Txt ''binding arbitration'', dots, Txt ''waive'', dots,
                Alt [Txt ''court'', Txt ''trial'', Txt ''jury'']]],
      ''Binding Arbitration & Rights Waiver'', ''VERY_HIGH''),
     (Alt [Cat [Txt ''class action'', dots, Txt ''waive''],
           Cat [Txt ''waive'', dots, Txt ''class action'']],
      ''Class Action Waiver'', ''VERY_HIGH''),
     (Alt [Cat [Txt ''unilateral'', dots, Txt ''change''],
           Cat [Txt ''modify'', dots, Txt ''without notice''],
           Txt ''without notification''],
      ''Unilateral Modification Rights'', ''HIGH''),
     (Alt [Cat [Txt ''sell'', dots, Txt ''data''],
           Cat [Txt ''monetize'', dots, Txt ''data''],
           Cat [Txt ''third'', dot, Txt ''parties'', dots, Txt ''without restriction''],
           Cat [Txt ''transferable'', dots, Txt ''license'', dots, Txt ''data'']],
      ''Data Monetization Rights'', ''VERY_HIGH''),
     (Alt [Cat [Txt ''perpetual'', dots, Txt ''irrevocable'', dots, Txt ''license''],
           Cat [Txt ''worldwide'', dots, Txt ''license'', dots, Txt ''content'']],
      ''Irrevocable Content License'', ''HIGH''),
     (Alt [Cat [Txt ''non'', dot, Txt ''refundable'', dots, Txt ''error''],
           Cat [Txt ''no'', dots, Txt ''refund'', dots, Txt ''error''],
           Cat [Txt ''payments'', dots, Txt ''non'', dot, Txt ''refundable'']],
      ''No-Refund Policy'', ''MEDIUM''),
     (Alt [Cat [Txt ''forfeit'', dots, Alt [Txt ''balance'', Txt ''credits'']],
           Cat [Txt ''void'', dots, Alt [Txt ''benefits'', Txt ''rewards'']],
           Txt ''no compensation''],
      ''Asset Forfeiture on Termination'', ''HIGH''),
     (Alt [Cat [Txt ''not liable'', dots, Alt [Txt ''theft'', Txt ''breach'', Txt ''loss'']],
           Cat [Txt ''waiver'', dots, Txt ''liability'', dots, Txt ''negligence'']],
      ''Broad Liability Waiver'', ''VERY_HIGH''),
     (Alt [Cat [Txt ''indemnif'', dots, Alt [Txt ''our negligence'', Txt ''our errors'']],
           Cat [Txt ''hold harmless'', dots, Txt ''negligence'']],
      ''Indemnification of Negligence'', ''VERY_HIGH''),
     (Alt [Txt ''private arbitration'',
           Cat [Txt ''no'', dots, Alt [Txt ''jury'', Txt ''court'', Txt ''appeal'']]],
      ''Private Arbitration Mandate'', ''HIGH''),
     (Alt [Cat [Txt ''intellectual property'', dots, Txt ''become'', dots, Txt ''ours''],
           Cat [Txt ''assign'', dots, Txt ''all rights'']],
      ''IP Assignment Clause'', ''HIGH''),
     (Alt [Cat [Txt ''silence'', dots, Txt ''consent''],
           Cat [Txt ''deemed'', dots, Txt ''acceptance''],
           Cat [Txt ''failure'', dots, Txt ''object'', dots, Txt ''consent'']],
      ''Silence-as-Consent'', ''HIGH''),
     (Alt [Cat [Txt ''survive'', dots, Txt ''termination''],
           Cat [Txt ''survive'', dots, Txt ''death''],
           Cat [Txt ''perpetual'', dots, Txt ''obligation'']],
      ''Perpetual Obligation'', ''MEDIUM''),
     (Alt [Cat [Txt ''consent'', dots, Txt ''future'', dots, Txt ''terms''],
           Txt ''terms not yet written''],
      ''Future Terms Consent'', ''VERY_HIGH'')]"

definition clause_signal :: "string \<Rightarrow> string \<Rightarrow> Signal" where
  \<comment> \<open>the body of the loop of \<open>evaluate_all\<close> for one matching tuple\<close>
  "clause_signal nm severity =
     (let lvl = (if severity \<in> set [''VERY_HIGH'', ''HIGH''] then RED else YELLOW);
          conf = (if severity = ''VERY_HIGH'' then 0.95
                  else if severity = ''HIGH'' then 0.85 else 0.75)
      in \<lparr>name = nm, level = lvl,
          message = severity @ '' RISK: '' @ nm @
            '' - This provision significantly affects your rights and recourse options.'',
          confidence = conf\<rparr>)"

fun evaluate_all_loop ::
  "Unicode \<Rightarrow> (regex \<times> string \<times> string) list \<Rightarrow> string \<Rightarrow> Signal list \<Rightarrow> Signal list" where
  "evaluate_all_loop u [] low signals = signals"
| "evaluate_all_loop u ((pattern, nm, severity) # rest) low signals =
     (if re_search u pattern low
      then evaluate_all_loop u rest low (signals @ [clause_signal nm severity])
      else evaluate_all_loop u rest low signals)"

definition evaluate_all :: "Unicode \<Rightarrow> string \<Rightarrow> string \<Rightarrow> Signal list" where
  \<comment> \<open>\<open>LegalClauseRule.evaluate_all\<close>\<close>
  "evaluate_all u content context =
     (if context \<noteq> ''legal_agreement'' then []
      else evaluate_all_loop u CONCERNING_PATTERNS (py_lower u content) [])"

subsection \<open>High-pressure pattern rule\<close>

definition urgency_pattern :: regex where
  "urgency_pattern =
     Cat [WordB, Alt [Txt ''urgent'', Txt ''asap'', Txt ''immediately'', Txt ''now'',
                      Txt ''today'', Txt ''hurry'', Txt ''rush''], WordB]"

definition action_pattern :: regex where
  "action_pattern =
     Cat [WordB, Alt [Txt ''click'', Txt ''respond'', Txt ''reply'', Txt ''act'',
                      Txt ''confirm''], WordB]"

definition consequence_pattern :: regex where
  "consequence_pattern =
     Cat [WordB, Alt [Txt ''expire'', Txt ''lose'', Txt ''miss out'', Txt ''forfeit'',
                      Txt ''limited''], WordB]"

definition pressure_evaluate :: "Unicode \<Rightarrow> string \<Rightarrow> string \<Rightarrow> string \<Rightarrow> Signal option" where
  \<comment> \<open>\<open>HighPressurePatternRule.evaluate\<close>\<close>
  "pressure_evaluate u content content_type context =
     (let low = py_lower u content;
          urgency = re_search u urgency_pattern low;
          action_demand = re_search u action_pattern low;
          consequence = re_search u consequence_pattern low
      in if urgency \<and> action_demand \<and> consequence then
           Some \<lparr>name = ''Predatory Pressure Pattern'', level = RED,
                 message = ''URGENT + ACTION DEMAND + CONSEQUENCE = classic manipulation tactic designed to bypass critical thinking.'',
                 confidence = 0.95\<rparr>
         else if urgency \<and> action_demand then
           Some \<lparr>name = ''High-Pressure Tactics'', level = RED,
                 message = ''Urgency combined with action demands is a common social engineering pattern.'',
                 confidence = 0.85\<rparr>
         else None)"

subsection \<open>Verifiability rule\<close>

definition website_pattern :: regex where
  \<comment> \<open>\<open>https?://[^\s]+\<close>\<close>
  "website_pattern = Cat [Txt ''http'', Opt (OneOf [Lit (CHR ''s'')]), Txt ''://'', Plus (NoneOf [Space])]"

definition linkedin_pattern :: regex where
  \<comment> \<open>\<open>linkedin\.com\<close>\<close>
  "linkedin_pattern = Txt ''linkedin.com''"

definition tld :: regex where
  \<comment> \<open>\<open>(com|io|ai|co|org|net)\<close>\<close>
  "tld = Alt [Txt ''com'', Txt ''io'', Txt ''ai'', Txt ''co'', Txt ''org'', Txt ''net'']"

definition domain_email_pattern :: regex where
  \<comment> \<open>\<open>@[\w]+\.(com|io|ai|co|org|net)\<close>\<close>
  "domain_email_pattern = Cat [Txt ''@'', Plus (OneOf [Word]), Txt ''.'', tld]"

definition company_name_pattern :: regex where
  \<comment> \<open>\<open>\b(Inc\.?|LLC|Ltd\.?|Corp\.?|Company)\b\<close>\<close>
  "company_name_pattern =
     Cat [WordB,
          Alt [Cat [Txt ''Inc'', Opt (OneOf [Lit (CHR ''.'')])],
               Txt ''LLC'',
               Cat [Txt ''Ltd'', Opt (OneOf [Lit (CHR ''.'')])],
               Cat [Txt ''Corp'', Opt (OneOf [Lit (CHR ''.'')])],
               Txt ''Company''],
          WordB]"

definition py_int :: "bool \<Rightarrow> int" where
  \<comment> \<open>a \<open>bool\<close> summed as a number\<close>
  "py_int b = (if b then 1 else 0)"

definition verifiable_count :: "Unicode \<Rightarrow> string \<Rightarrow> int" where
  "verifiable_count u content =
     (let has_website = re_search u website_pattern content;
          has_linkedin = re_search u linkedin_pattern (py_lower u content);
          has_domain_email = re_search u domain_email_pattern content;
          has_company_name = re_search u company_name_pattern content
      in sum_list (map py_int [has_website, has_linkedin, has_domain_email, has_company_name]))"

fun str_nat :: "nat \<Rightarrow> string" where
  \<comment> \<open>\<open>str(n)\<close> for \<open>n \<ge> 0\<close>\<close>
  "str_nat n =
     (if n < 10 then [''0123456789'' ! n]
      else str_nat (n div 10) @ [''0123456789'' ! (n mod 10)])"

definition str_int :: "int \<Rightarrow> string" where
  \<comment> \<open>\<open>str(i)\<close>\<close>
  "str_int i = (if i < 0 then ''-'' @ str_nat (nat (- i)) else str_nat (nat i))"

definition verifiability_evaluate :: "Unicode \<Rightarrow> string \<Rightarrow> string \<Rightarrow> string \<Rightarrow> Signal option" where
  \<comment> \<open>\<open>VerifiabilityRule.evaluate\<close>\<close>
  "verifiability_evaluate u content content_type context =
     (if context \<notin> set [''partnership_offer'', ''client_inquiry'', ''vendor_proposal''] then None
      else let n = verifiable_count u content in
        if n = 0 then
          Some \<lparr>name = ''Zero Verifiable Identity'', level = RED,
                message = ''No company website, LinkedIn, corporate email, or legal name provided. Cannot verify legitimacy.'',
                confidence = 0.9\<rparr>
        else if n \<le> 2 then
          Some \<lparr>name = ''Limited Verifiability'', level = YELLOW,
                message = ''Only '' @ str_int n @
                  ''/4 verification elements present. Request additional proof of legitimacy.'',
                confidence = 0.75\<rparr>
        else None)"

section \<open>Narrative generator\<close>

text \<open>The non-ASCII symbols of the template texts, as UTF-8 bytes.\<close>

definition em_dash :: string where
  \<comment> \<open>EM DASH\<close>
  "em_dash = [CHR 0xE2, CHR 0x80, CHR 0x94]"

definition octagonal_sign :: string where
  \<comment> \<open>OCTAGONAL SIGN\<close>
  "octagonal_sign = [CHR 0xF0, CHR 0x9F, CHR 0x9B, CHR 0x91]"

definition clipboard :: string where
  \<comment> \<open>CLIPBOARD\<close>
  "clipboard = [CHR 0xF0, CHR 0x9F, CHR 0x93, CHR 0x8B]"

definition scales :: string where
  \<comment> \<open>SCALES, VARIATION SELECTOR-16\<close>
  "scales = [CHR 0xE2, CHR 0x9A, CHR 0x96, CHR 0xEF, CHR 0xB8, CHR 0x8F]"

definition raised_hand :: string where
  \<comment> \<open>RAISED HAND\<close>
  "raised_hand = [CHR 0xE2, CHR 0x9C, CHR 0x8B]"

definition page_facing_up :: string where
  \<comment> \<open>PAGE FACING UP\<close>
  "page_facing_up = [CHR 0xF0, CHR 0x9F, CHR 0x93, CHR 0x84]"

definition warning_sign :: string where
  \<comment> \<open>WARNING SIGN, VARIATION SELECTOR-16\<close>
  "warning_sign = [CHR 0xE2, CHR 0x9A, CHR 0xA0, CHR 0xEF, CHR 0xB8, CHR 0x8F]"

definition magnifying_glass :: string where
  \<comment> \<open>LEFT-POINTING MAGNIFYING GLASS\<close>
  "magnifying_glass = [CHR 0xF0, CHR 0x9F, CHR 0x94, CHR 0x8D]"

definition e_mail_symbol :: string where
  \<comment> \<open>E-MAIL SYMBOL\<close>
  "e_mail_symbol = [CHR 0xF0, CHR 0x9F, CHR 0x93, CHR 0xA7]"

definition check_mark :: string where
  \<comment> \<open>CHECK MARK\<close>
  "check_mark = [CHR 0xE2, CHR 0x9C, CHR 0x93]"

definition alarm_clock :: string where
  \<comment> \<open>ALARM CLOCK\<close>
  "alarm_clock = [CHR 0xE2, CHR 0x8F, CHR 0xB0]"

definition telephone_receiver :: string where
  \<comment> \<open>TELEPHONE RECEIVER\<close>
  "telephone_receiver = [CHR 0xF0, CHR 0x9F, CHR 0x93, CHR 0x9E]"

definition wastebasket :: string where
  \<comment> \<open>WASTEBASKET, VARIATION SELECTOR-16\<close>
  "wastebasket = [CHR 0xF0, CHR 0x9F, CHR 0x97, CHR 0x91, CHR 0xEF, CHR 0xB8, CHR 0x8F]"

definition light_bulb :: string where
  \<comment> \<open>ELECTRIC LIGHT BULB\<close>
  "light_bulb = [CHR 0xF0, CHR 0x9F, CHR 0x92, CHR 0xA1]"

text \<open>A parsed JSON value; numbers are kept as integers, no rule reads them.\<close>

datatype json =
    JNull
  | JBool bool
  | JNum int
  | JStr string
  | JArr "json list"
  | JObj "(string \<times> json) list" \<comment> \<open>a \<open>dict\<close>: keys with their values, each key once\<close>

type_synonym dict = "(string \<times> json) list"

text \<open>
  Field names are the source's; where two classes share a field name, or a name is taken
  in HOL, the field carries a prefix (\<open>sig_id\<close> for \<open>id\<close>, \<open>ai_signals\<close> for the
  \<open>signals\<close> of \<open>AIInput\<close>).
\<close>

record AISignal =
  sig_id :: string
  category :: string
  title :: string
  explanation :: string
  details :: "string option"
  ruleId :: string
  sig_severity :: "string option"
  sig_domain :: "string option"

record AIInput =
  inputType :: string
  originalInput :: string
  ai_detectedContext :: string
  ai_signals :: "AISignal list"
  ai_businessPriority :: "dict option"
  ai_companyAssessment :: "dict option"
  ai_concernCount :: int
  ai_severityLevel :: string

record AIOutput =
  ai_summary :: string
  ai_whatYouMightMiss :: string
  ai_actions :: "string list"

datatype py_error =
    TypeError | KeyError | IndexError | AttributeError | JSONDecodeError | TransportError
  | ValidationError

definition determine_severity :: "AIInput \<Rightarrow> string" where
  \<comment> \<open>\<open>TrustLensAI._determine_severity\<close>\<close>
  "determine_severity input_data =
     (let count = ai_concernCount input_data in
      if count \<ge> 6 then ''critical''
      else if count \<ge> 3 then ''high''
      else if count \<ge> 1 then ''moderate''
      else ''low'')"

fun join :: "string \<Rightarrow> string list \<Rightarrow> string" where
  \<comment> \<open>\<open>sep.join(xs)\<close>\<close>
  "join sep [] = []"
| "join sep [x] = x"
| "join sep (x # y # ys) = x @ sep @ join sep (y # ys)"

definition build_compound_explanation :: "AISignal list \<Rightarrow> string \<Rightarrow> string \<Rightarrow> string" where
  "build_compound_explanation signals context severity =
     (if severity = ''critical'' then
        ''The combined presence of multiple high-impact clauses creates a systemic power imbalance. Individually, each provision might appear in standard contracts, but together they form a structure that: (1) eliminates your ability to dispute or seek remedy, (2) grants the other party unilateral control over terms and access, and (3) extends obligations beyond reasonable limits. This is not a balanced agreement.''
      else if severity = ''high'' then
        ''Several concerning provisions work together to shift significant control away from you. While not every clause is problematic on its own, their combination creates substantial risk exposure'' @ em_dash @ ''particularly around dispute resolution, data rights, and unilateral changes. The structure favors the drafting party heavily.''
      else if severity = ''moderate'' then
        (let risk_signals = filter (\<lambda>s. category s = ''risk'') signals in
         if risk_signals \<noteq> [] then
           ''Detected '' @ str_int (int (length risk_signals)) @ '' area'' @
           (if length risk_signals > 1 then ''s'' else [])  @ '' of concern: '' @
           join '', '' (map title (take 2 risk_signals)) @
           ''. These provisions warrant careful review before proceeding.''
         else ''Some indicators suggest caution is warranted. Review the specific signals detected.'')
      else ''No significant risk patterns detected. Standard verification practices apply.'')"

definition build_what_you_might_miss :: "AISignal list \<Rightarrow> string \<Rightarrow> string \<Rightarrow> string" where
  "build_what_you_might_miss signals context severity =
     (if context = ''legal_agreement'' then
        (if severity \<in> set [''critical'', ''high''] then
           ''What you might miss: These clauses don't just limit your current rights'' @ em_dash @ ''they systematically remove your ability to challenge problems later. The binding arbitration clause means you cannot sue in court, even for serious harm. The unilateral change provision allows them to alter terms after you've committed, leaving you with no recourse. The data license grant is perpetual and irrevocable, extending beyond account closure. Combined, these create a legal structure where you bear all risk while they retain all control.''
         else
           ''No major red flags detected, but always verify: (1) Can you exit easily? (2) What happens to your data? (3) Can terms change without notice? Standard agreements should allow dispute resolution in court and limit data use to service provision.'')
      else if context \<in> set [''partnership_offer'', ''vendor_proposal'', ''client_inquiry''] then
        (if severity \<in> set [''critical'', ''high''] then
           ''What you might miss: The urgency pressure combined with limited verifiability is a classic pattern. Legitimate opportunities don't require immediate decisions without due diligence. The lack of corporate infrastructure (no verifiable domain, no LinkedIn presence) means you're taking on partnership risk without validation. If this were credible, they would provide references and allow time for verification.''
         else
           ''Key verification steps: Confirm company registration, check for active social presence, request references from past partners. Credible businesses provide this information proactively.'')
      else
        (if severity \<in> set [''critical'', ''high''] then
           ''What you might miss: Urgency + personal info requests + unknown sender = classic social engineering. The pressure to act fast is specifically designed to bypass your critical thinking. Legitimate entities don't operate this way'' @ em_dash @ ''they provide time, verifiable contact information, and don't demand sensitive data via unsolicited messages.''
         else
           ''Verify sender identity through official channels (not reply links). Check for pressure tactics. When in doubt, pause and verify independently.''))"

definition build_actions :: "string \<Rightarrow> string \<Rightarrow> AISignal list \<Rightarrow> string list" where
  "build_actions context severity signals =
     (if context = ''legal_agreement'' then
        (if severity = ''critical'' then
           [octagonal_sign @ '' DO NOT ACCEPT without attorney review'' @ em_dash @ ''this agreement contains systemic risk'',
            clipboard @ '' Specifically challenge: binding arbitration clause, unilateral change rights, broad data license'',
            scales @ '' Compare against industry-standard terms (e.g., major platform ToS)'',
            raised_hand @ '' Consider opting out'' @ em_dash @ ''few services are worth surrendering these rights'',
            page_facing_up @ '' Request modified terms removing arbitration and limiting data use'']
         else if severity = ''high'' then
           [warning_sign @ '' Do not accept without understanding each flagged clause'',
            clipboard @ '' Mark specific sections for legal review (arbitration, liability, data rights)'',
            magnifying_glass @ '' Compare data handling and dispute terms against 2-3 similar services'',
            e_mail_symbol @ '' Request clarification on: unilateral changes, termination, data retention'',
            raised_hand @ '' If protections are absent, consider alternative providers'']
         else
           [check_mark @ '' Review standard sections (liability, data use, termination)'',
            clipboard @ '' Ensure you can delete account and data'',
            magnifying_glass @ '' Verify dispute resolution is in court, not just arbitration''])
      else if context \<in> set [''partnership_offer'', ''vendor_proposal''] then
        (if severity \<in> set [''critical'', ''high''] then
           [octagonal_sign @ '' Do not proceed without verification'' @ em_dash @ ''high-pressure + low-verifiability is a warning pattern'',
            clipboard @ '' Request: Company registration, LinkedIn profiles, 2-3 references'',
            alarm_clock @ '' Insist on time for due diligence'' @ em_dash @ ''legitimate partners allow this'',
            magnifying_glass @ '' Search company name + 'scam' or 'complaint'' @ [CHR 0x27],
            raised_hand @ '' If they resist verification, disengage immediately'']
         else
           [clipboard @ '' Request company website and LinkedIn verification'',
            telephone_receiver @ '' Schedule call after confirming company exists'',
            magnifying_glass @ '' Check references before sharing proprietary information''])
      else
        (if severity \<in> set [''critical'', ''high''] then
           [octagonal_sign @ '' DO NOT CLICK links or respond'' @ em_dash @ ''this shows classic manipulation patterns'',
            wastebasket @ '' Delete message and block sender'',
            magnifying_glass @ '' Verify independently through official website (not reply links)'',
            light_bulb @ '' Report to platform if applicable'',
            warning_sign @ '' If you already clicked, scan device and change passwords'']
         else
           [warning_sign @ '' Verify sender through official channels'',
            alarm_clock @ '' Take time'' @ em_dash @ ''ignore urgency pressure'',
            magnifying_glass @ '' Search message content for known scams'']))"

subsection \<open>The enhancement call\<close>

definition upper_char :: "char \<Rightarrow> char" where
  "upper_char c =
     (case map_of (zip ''abcdefghijklmnopqrstuvwxyz'' ''ABCDEFGHIJKLMNOPQRSTUVWXYZ'') c of
        Some d \<Rightarrow> d
      | None \<Rightarrow> c)"

definition upper :: "string \<Rightarrow> string" where
  \<comment> \<open>\<open>str.upper()\<close>\<close>
  "upper s = map upper_char s"

definition strip :: "Unicode \<Rightarrow> string \<Rightarrow> string" where
  \<comment> \<open>\<open>str.strip()\<close>\<close>
  "strip u s = concat (rev (dropWhile (is_space u) (rev (dropWhile (is_space u) (chars_of s)))))"

definition gemini_prompt :: "AIInput \<Rightarrow> string \<Rightarrow> string \<Rightarrow> string" where
  "gemini_prompt input_data base_summary severity =
     (let concern_titles = map title (filter (\<lambda>s. category s = ''risk'') (ai_signals input_data)) in
      ''You are a legal risk analyst. Rewrite this summary to be clearer and more impactful.\<newline>\<newline>SEVERITY: '' @ upper severity @
      ''\<newline>CONCERNS: '' @ join '', '' (take 4 concern_titles) @
      ''\<newline>\<newline>CURRENT SUMMARY:\<newline>'' @ base_summary @
      ''\<newline>\<newline>REQUIREMENTS:\<newline>1. Be direct about the severity'' @ em_dash @ ''don't soften it\<newline>2. Explain how clauses work together to create risk\<newline>3. Use clear, serious language\<newline>4. Keep it to 2-3 sentences\<newline>5. Focus on user protection, not neutrality\<newline>\<newline>IMPROVED SUMMARY:'')"

text \<open>
  What the HTTP client gives back for one POST of a prompt: the call raises (a timeout, a
  transport error), or there is a response with a status code and a body; the body is
  \<open>None\<close> when it is not JSON.
\<close>

datatype http_outcome = Raises | Response int "json option"

fun json_contains :: "string \<Rightarrow> json \<Rightarrow> py_error + bool" where
  \<comment> \<open>\<open>key in value\<close>\<close>
  "json_contains k (JObj kvs) = Inr (k \<in> set (map fst kvs))"
| "json_contains k (JArr xs) = Inr (JStr k \<in> set xs)"
| "json_contains k (JStr s) = Inr (str_in k s)"
| "json_contains k v = Inl TypeError"

fun json_key :: "string \<Rightarrow> json \<Rightarrow> py_error + json" where
  \<comment> \<open>\<open>value[key]\<close> with a string key\<close>
  "json_key k (JObj kvs) = (case map_of kvs k of None \<Rightarrow> Inl KeyError | Some v \<Rightarrow> Inr v)"
| "json_key k v = Inl TypeError"

fun json_first :: "json \<Rightarrow> py_error + json" where
  \<comment> \<open>\<open>value[0]\<close>\<close>
  "json_first (JArr []) = Inl IndexError"
| "json_first (JArr (x # xs)) = Inr x"
| "json_first (JStr s) =
     (case chars_of s of [] \<Rightarrow> Inl IndexError | ch # _ \<Rightarrow> Inr (JStr ch))"
| "json_first (JObj kvs) = Inl KeyError"
| "json_first v = Inl TypeError"

fun json_strip :: "Unicode \<Rightarrow> json \<Rightarrow> py_error + string" where
  \<comment> \<open>\<open>value.strip()\<close>\<close>
  "json_strip u (JStr s) = Inr (strip u s)"
| "json_strip u v = Inl AttributeError"

definition then_do :: "py_error + 'a \<Rightarrow> ('a \<Rightarrow> py_error + 'b) \<Rightarrow> py_error + 'b" where
  \<comment> \<open>the next step runs only if the one before did not raise\<close>
  "then_do r f = (case r of Inl e \<Rightarrow> Inl e | Inr v \<Rightarrow> f v)"

definition candidate_text :: "Unicode \<Rightarrow> json \<Rightarrow> py_error + string" where
  \<comment> \<open>\<open>result['candidates'][0]['content']['parts'][0]['text'].strip()\<close>\<close>
  "candidate_text u result =
     then_do (json_key ''candidates'' result) (\<lambda>candidates.
     then_do (json_first candidates) (\<lambda>candidate.
     then_do (json_key ''content'' candidate) (\<lambda>content.
     then_do (json_key ''parts'' content) (\<lambda>parts.
     then_do (json_first parts) (\<lambda>part.
     then_do (json_key ''text'' part) (json_strip u))))))"

definition enhance_try :: "Unicode \<Rightarrow> (string \<Rightarrow> http_outcome) \<Rightarrow> string \<Rightarrow> py_error + string option" where
  \<comment> \<open>the \<open>try\<close> block of \<open>_enhance_with_gemini\<close>\<close>
  "enhance_try u post prompt =
     (case post prompt of
        Raises \<Rightarrow> Inl TransportError
      | Response status_code body \<Rightarrow>
          if status_code = 200 then
            (case body of
               None \<Rightarrow> Inl JSONDecodeError
             | Some result \<Rightarrow>
                 then_do (json_contains ''candidates'' result) (\<lambda>has.
                   if has then then_do (candidate_text u result) (\<lambda>text. Inr (Some text))
                   else Inr None))
          else Inr None)"

definition enhance_with_gemini ::
  "Unicode \<Rightarrow> (string \<Rightarrow> http_outcome) \<Rightarrow> AIInput \<Rightarrow> string \<Rightarrow> string \<Rightarrow> py_error + string option" where
  \<comment> \<open>\<open>TrustLensAI._enhance_with_gemini\<close>: whatever the \<open>try\<close> block raises is dropped\<close>
  "enhance_with_gemini u post input_data base_summary severity =
     (case enhance_try u post (gemini_prompt input_data base_summary severity) of
        Inl e \<Rightarrow> Inr None
      | Inr r \<Rightarrow> Inr r)"

definition truthy :: "string option \<Rightarrow> bool" where
  \<comment> \<open>the truth value of an optional string: neither \<open>None\<close> nor empty\<close>
  "truthy v = (case v of None \<Rightarrow> False | Some s \<Rightarrow> s \<noteq> [])"

definition ai_generate_summary ::
  "Unicode \<Rightarrow> string option \<Rightarrow> (string \<Rightarrow> http_outcome) \<Rightarrow> AIInput \<Rightarrow> py_error + AIOutput" where
  \<comment> \<open>\<open>TrustLensAI.generate_summary\<close>; \<open>api_key\<close> is the environment's \<open>GEMINI_API_KEY\<close>\<close>
  "ai_generate_summary u api_key post input_data =
     (let severity = determine_severity input_data;
          signals = ai_signals input_data;
          context = ai_detectedContext input_data;
          summary = build_compound_explanation signals context severity;
          what_you_might_miss = build_what_you_might_miss signals context severity;
          actions = build_actions context severity signals;
          summary =
            (if truthy api_key \<and> severity \<in> set [''critical'', ''high''] then
               (case enhance_with_gemini u post input_data summary severity of
                  Inl e \<Rightarrow> summary
                | Inr enhanced \<Rightarrow> if truthy enhanced then the enhanced else summary)
             else summary)
      in Inr \<lparr>ai_summary = summary, ai_whatYouMightMiss = what_you_might_miss,
               ai_actions = actions\<rparr>)"

section \<open>Business assessment\<close>

record BusinessPriorityAssessment =
  strategicImportance :: string
  attentionWorthiness :: string
  riskToRewardBalance :: string
  timeRecommendation :: string
  bp_confidenceFactors :: "string list"
  bp_concerns :: "string list"

record CompanyAssessment =
  ca_visibility :: string
  ca_trackRecord :: string
  ca_flags :: "string list"
  ca_confidenceFactors :: "string list"

fun collect_names :: "Signal list \<Rightarrow> string list \<times> string list \<Rightarrow> string list \<times> string list" where
  \<comment> \<open>the loop of \<open>assess_business_priority\<close> that fills \<open>confidence_factors\<close> and \<open>concerns\<close>\<close>
  "collect_names [] acc = acc"
| "collect_names (sig # rest) (confidence_factors, concerns) =
     (if level sig = GREEN then collect_names rest (confidence_factors @ [name sig], concerns)
      else if level sig \<in> set [RED, YELLOW]
        then collect_names rest (confidence_factors, concerns @ [name sig])
      else collect_names rest (confidence_factors, concerns))"

definition assess_business_priority ::
  "Signal list \<Rightarrow> string \<Rightarrow> string \<Rightarrow> BusinessPriorityAssessment" where
  "assess_business_priority sigs context severity_level =
     (let risk_count = sum_list (map (\<lambda>s. 1::int) (filter (\<lambda>s. level s = RED) sigs));
          green_count = sum_list (map (\<lambda>s. 1::int) (filter (\<lambda>s. level s = GREEN) sigs));
          (strategic, attention, risk_reward, time_rec) =
            (if severity_level \<in> set [''critical'', ''high''] then
               (''low'', ''ignore'', ''unfavorable'',
                ''Deprioritize'' @ [CHR 0xC3, CHR 0xA2, CHR 0xE2, CHR 0x82, CHR 0xAC, CHR 0xE2, CHR 0x80, CHR 0x9D] @ ''high risk indicators present'')
             else if green_count \<ge> 2 \<and> risk_count = 0 then
               (''high'', ''engage'', ''favorable'', ''Warrants prompt attention'')
             else if green_count \<ge> 1 \<and> risk_count \<le> 1 then
               (''medium'', ''monitor'', ''neutral'', ''Evaluate alongside other opportunities'')
             else
               (''low'', ''ignore'', ''unfavorable'',
                ''Does not merit significant time investment''));
          (confidence_factors, concerns) = collect_names sigs ([], [])
      in \<lparr>strategicImportance = strategic,
          attentionWorthiness = attention,
          riskToRewardBalance = risk_reward,
          timeRecommendation = time_rec,
          bp_confidenceFactors =
            (if confidence_factors \<noteq> [] then confidence_factors
             else [''Limited positive indicators'']),
          bp_concerns = (if concerns \<noteq> [] then concerns else [''No specific concerns flagged''])\<rparr>)"

text \<open>
  What the scrape collaborator gives back for a URL: a failure with its error text, or
  the title, description, contact and about flags, social links and domain of the page.
\<close>

datatype Scraped =
    ScrapeFailed string
  | ScrapeOk string string bool bool "string list" string

fun scraped_success :: "Scraped \<Rightarrow> bool" where
  \<comment> \<open>\<open>scraped.get("success")\<close>\<close>
  "scraped_success (ScrapeFailed e) = False"
| "scraped_success (ScrapeOk t d c a links host) = True"

fun scraped_social_links :: "Scraped \<Rightarrow> string list" where
  \<comment> \<open>\<open>scraped.get("social_links")\<close>; a missing key counts as no link\<close>
  "scraped_social_links (ScrapeFailed e) = []"
| "scraped_social_links (ScrapeOk t d c a links host) = links"

definition corp_email_prefix :: regex where
  \<comment> \<open>\<open>[\w.]+@\<close>\<close>
  "corp_email_prefix = Cat [Plus (OneOf [Word, Lit (CHR ''.'')]), Txt ''@'']"

definition corp_email_group :: regex where
  \<comment> \<open>\<open>([\w]+\.(com|io|ai|co|org|net))\<close>\<close>
  "corp_email_group = Cat [Plus (OneOf [Word]), Txt ''.'', tld]"

definition company_pattern :: regex where
  \<comment> \<open>\<open>(?:at|from|of)\s+([A-Z][\w\s]+(?:Inc|LLC|Ltd|Corp|Company|Solutions|Technologies|AI|Labs))\<close>\<close>
  "company_pattern =
     Cat [Alt [Txt ''at'', Txt ''from'', Txt ''of''],
          Plus (OneOf [Space]),
          One (OneOf [Upper]),
          Plus (OneOf [Word, Space]),
          Alt [Txt ''Inc'', Txt ''LLC'', Txt ''Ltd'', Txt ''Corp'', Txt ''Company'',
               Txt ''Solutions'', Txt ''Technologies'', Txt ''AI'', Txt ''Labs'']]"

definition assess_company :: "Unicode \<Rightarrow> string \<Rightarrow> Scraped option \<Rightarrow> CompanyAssessment" where
  "assess_company u content scraped =
     (let corp_email = re_find_group u corp_email_prefix corp_email_group content;
          (flags, confidence_factors, track_record) =
            (case corp_email of
               Some domain \<Rightarrow>
                 if domain \<notin> set [''gmail.com'', ''yahoo.com'', ''hotmail.com'', ''outlook.com'']
                 then ([], [''Corporate email domain''], ''claimed'')
                 else ([''Using personal email provider''], [], ''unverified'')
             | None \<Rightarrow> ([''No corporate email provided''], [], ''unknown''));
          (flags, confidence_factors) =
            (if re_search u company_pattern content
             then (flags, confidence_factors @ [''Company name provided''])
             else (flags @ [''Limited public visibility''], confidence_factors));
          (visibility, flags, confidence_factors) =
            (case scraped of
               Some page \<Rightarrow>
                 if scraped_success page then
                   (if scraped_social_links page \<noteq> []
                    then (''moderate'', flags, confidence_factors @ [''Active social media presence''])
                    else (''limited'', flags @ [''Limited online presence''], confidence_factors))
                 else (''unknown'', flags, confidence_factors)
             | None \<Rightarrow> (''unknown'', flags, confidence_factors))
      in \<lparr>ca_visibility = visibility, ca_trackRecord = track_record, ca_flags = flags,
          ca_confidenceFactors = confidence_factors\<rparr>)"

section \<open>Engine\<close>

record TrustAnalysis =
  overall_score :: int
  overall_level :: string
  signals :: "Signal list"
  external_checks :: "dict list"
  summary :: string
  whatYouMightMiss :: string
  recommendedActions :: "string list"
  businessPriority :: "BusinessPriorityAssessment option"
  companyAssessment :: "CompanyAssessment option"
  detectedContext :: string
  concernCount :: int
  severityLevel :: string

datatype TrustRule = LegalClauseRule | HighPressurePatternRule | VerifiabilityRule

definition rules :: "TrustRule list" where
  \<comment> \<open>\<open>TrustLensEngine.rules\<close>\<close>
  "rules = [LegalClauseRule, HighPressurePatternRule, VerifiabilityRule]"

fun class_name :: "TrustRule \<Rightarrow> string" where
  \<comment> \<open>\<open>type(rule).__name__\<close>\<close>
  "class_name LegalClauseRule = ''LegalClauseRule''"
| "class_name HighPressurePatternRule = ''HighPressurePatternRule''"
| "class_name VerifiabilityRule = ''VerifiabilityRule''"

fun run_rules ::
  "Unicode \<Rightarrow> TrustRule list \<Rightarrow> string \<Rightarrow> string \<Rightarrow> string \<Rightarrow> Signal list \<Rightarrow> Signal list" where
  \<comment> \<open>the loop of \<open>analyze\<close> over the rules, collecting every signal\<close>
  "run_rules u [] content content_type context sigs = sigs"
| "run_rules u (LegalClauseRule # rest) content content_type context sigs =
     run_rules u rest content content_type context (sigs @ evaluate_all u content context)"
| "run_rules u (HighPressurePatternRule # rest) content content_type context sigs =
     (case pressure_evaluate u content content_type context of
        Some signal \<Rightarrow> run_rules u rest content content_type context (sigs @ [signal])
      | None \<Rightarrow> run_rules u rest content content_type context sigs)"
| "run_rules u (VerifiabilityRule # rest) content content_type context sigs =
     (case verifiability_evaluate u content content_type context of
        Some signal \<Rightarrow> run_rules u rest content content_type context (sigs @ [signal])
      | None \<Rightarrow> run_rules u rest content content_type context sigs)"

definition url_pattern :: regex where
  \<comment> \<open>\<open>https?://[^\s<>"{}|\\^`\[\]]+\<close>\<close>
  "url_pattern =
     Cat [Txt ''http'', Opt (OneOf [Lit (CHR ''s'')]), Txt ''://'',
          Plus (NoneOf [Space, Lit (CHR ''<''), Lit (CHR ''>''), Lit (CHR 0x22), Lit (CHR ''{''),
                        Lit (CHR ''}''), Lit (CHR ''|''), Lit (CHR 0x5C), Lit (CHR ''^''),
                        Lit (CHR 0x60), Lit (CHR ''[''), Lit (CHR '']'')])]"

definition severity_of :: "int \<Rightarrow> string \<times> string \<times> int" where
  \<comment> \<open>the threshold chain of \<open>analyze\<close>: severity level, overall level, score\<close>
  "severity_of concern_count =
     (if concern_count \<ge> 6 then (''critical'', [CHR 0xC3, CHR 0xB0, CHR 0xC5, CHR 0xB8, CHR 0xE2, CHR 0x80, CHR 0x9D, CHR 0xC2, CHR 0xB4] @ '' CRITICAL RISK'', 15)
      else if concern_count \<ge> 3 then (''high'', [CHR 0xC3, CHR 0xB0, CHR 0xC5, CHR 0xB8, CHR 0xC5, CHR 0xB8, CHR 0xC2, CHR 0xA0] @ '' HIGH CONCERN'', 35)
      else if concern_count \<ge> 1 then (''moderate'', [CHR 0xC3, CHR 0xB0, CHR 0xC5, CHR 0xB8, CHR 0xC5, CHR 0xB8, CHR 0xC2, CHR 0xA1] @ '' MODERATE RISK'', 55)
      else (''low'', [CHR 0xC3, CHR 0xB0, CHR 0xC5, CHR 0xB8, CHR 0xC5, CHR 0xB8, CHR 0xC2, CHR 0xA2] @ '' LOW RISK'', 80))"

definition to_ai_signal :: "nat \<times> Signal \<Rightarrow> AISignal" where
  "to_ai_signal p =
     (case p of (i, s) \<Rightarrow>
        \<lparr>sig_id = ''sig-'' @ str_nat i,
         category = (if level s = RED then ''risk''
                     else if level s = YELLOW then ''uncertainty'' else ''green''),
         title = name s,
         explanation = message s,
         details = None,
         ruleId = class_name (rules ! (i mod length rules)),
         sig_severity = Some (if level s = RED then ''high'' else ''medium''),
         sig_domain = None\<rparr>)"

definition make_ai_input ::
  "string \<Rightarrow> string \<Rightarrow> string \<Rightarrow> Signal list \<Rightarrow> int \<Rightarrow> string \<Rightarrow> AIInput" where
  \<comment> \<open>the \<open>AIInput\<close> that \<open>analyze\<close> hands to the narrative generator\<close>
  "make_ai_input content content_type context sigs concern_count severity_level =
     \<lparr>inputType = content_type,
      originalInput = content,
      ai_detectedContext = context,
      ai_signals = map to_ai_signal (enumerate 0 sigs),
      ai_businessPriority = None,
      ai_companyAssessment = None,
      ai_concernCount = concern_count,
      ai_severityLevel = severity_level\<rparr>"

definition analyze ::
  "Unicode \<Rightarrow> string option \<Rightarrow> (string \<Rightarrow> http_outcome) \<Rightarrow> (string \<Rightarrow> Scraped) \<Rightarrow> string \<Rightarrow> string \<Rightarrow>
     py_error + TrustAnalysis" where
  \<comment> \<open>\<open>TrustLensEngine.analyze\<close>; \<open>api_key\<close>, \<open>post\<close> and \<open>scrape\<close> are the environment\<close>
  "analyze u api_key post scrape content content_type =
     (let context = detect_context content content_type;
          urls = re_find u url_pattern content;
          scraped = (case urls of None \<Rightarrow> None | Some url \<Rightarrow> Some (scrape url));
          sigs = run_rules u rules content content_type context [];
          concern_count = sum_list (map (\<lambda>s. 1) (filter (\<lambda>s. level s = RED) sigs));
          (severity_level, overall, score) = severity_of concern_count;
          ai_input = make_ai_input content content_type context sigs concern_count severity_level
      in case ai_generate_summary u api_key post ai_input of
           Inl e \<Rightarrow> Inl e
         | Inr ai_result \<Rightarrow>
             (let (business_priority, company_assessment) =
                    (if context \<in> set [''partnership_offer'', ''client_inquiry'', ''vendor_proposal'']
                     then (Some (assess_business_priority sigs context severity_level),
                           Some (assess_company u content scraped))
                     else (None, None))
              in Inr \<lparr>overall_score = score,
                      overall_level = overall,
                      signals = sigs,
                      external_checks = [],
                      summary = ai_summary ai_result,
                      whatYouMightMiss = ai_whatYouMightMiss ai_result,
                      recommendedActions = ai_actions ai_result,
                      businessPriority = business_priority,
                      companyAssessment = company_assessment,
                      detectedContext = context,
                      concernCount = concern_count,
                      severityLevel = severity_level\<rparr>))"

section \<open>The summary endpoint\<close>

record AIGenerateRequest =
  req_inputType :: string
  req_originalInput :: string
  req_detectedContext :: string
  req_signals :: "dict list"
  req_businessPriority :: "dict option"
  req_companyAssessment :: "dict option"

record AIGenerateResponse =
  resp_summary :: string
  modelUsed :: string
  fallback :: bool

definition dict_get :: "dict \<Rightarrow> string \<Rightarrow> json \<Rightarrow> json" where
  \<comment> \<open>\<open>d.get(key, default)\<close>\<close>
  "dict_get d k dflt = (case map_of d k of None \<Rightarrow> dflt | Some v \<Rightarrow> v)"

definition strict_str :: "json \<Rightarrow> string option" where
  \<comment> \<open>a validation of \<open>str\<close> fields that accepts strings only\<close>
  "strict_str v = (case v of JStr s \<Rightarrow> Some s | _ \<Rightarrow> None)"

definition optional_str :: "(json \<Rightarrow> string option) \<Rightarrow> json \<Rightarrow> string option option" where
  \<comment> \<open>validation of an \<open>Optional[str]\<close> field: \<open>None\<close> is accepted as it is\<close>
  "optional_str validate_str v =
     (case v of JNull \<Rightarrow> Some None | _ \<Rightarrow> map_option Some (validate_str v))"

text \<open>
  \<open>validate_str\<close> is the validation that the model classes (pydantic) apply to a value
  given to a field of type \<open>str\<close>: the field's string, or \<open>None\<close> when the value is
  rejected and the constructor raises. Which values other than strings are accepted
  depends on the library's version, so it is a parameter.
\<close>

definition make_ai_signal :: "(json \<Rightarrow> string option) \<Rightarrow> dict \<Rightarrow> py_error + AISignal" where
  \<comment> \<open>\<open>AISignal(id=sig.get('id', 'unknown'), ...)\<close>\<close>
  "make_ai_signal validate_str sig =
     (case (validate_str (dict_get sig ''id'' (JStr ''unknown'')),
            validate_str (dict_get sig ''category'' (JStr ''uncertainty'')),
            validate_str (dict_get sig ''title'' (JStr ''Unknown'')),
            validate_str (dict_get sig ''explanation'' (JStr [])),
            validate_str (dict_get sig ''ruleId'' (JStr ''unknown'')),
            optional_str validate_str (dict_get sig ''severity'' (JStr ''medium''))) of
        (Some i, Some c, Some t, Some e, Some r, Some sv) \<Rightarrow>
          Inr \<lparr>sig_id = i, category = c, title = t, explanation = e, details = None,
               ruleId = r, sig_severity = sv, sig_domain = None\<rparr>
      | _ \<Rightarrow> Inl ValidationError)"

fun convert_signals ::
  "(json \<Rightarrow> string option) \<Rightarrow> dict list \<Rightarrow> AISignal list \<Rightarrow> py_error + AISignal list" where
  \<comment> \<open>the loop that converts the request's signals; the first invalid one raises\<close>
  "convert_signals validate_str [] acc = Inr acc"
| "convert_signals validate_str (sig # rest) acc =
     (case make_ai_signal validate_str sig of
        Inl e \<Rightarrow> Inl e
      | Inr s \<Rightarrow> convert_signals validate_str rest (acc @ [s]))"

definition request_ai_input :: "AIGenerateRequest \<Rightarrow> AISignal list \<Rightarrow> AIInput" where
  \<comment> \<open>the \<open>AIInput\<close> that the endpoint builds from the request and the converted signals\<close>
  "request_ai_input request converted =
     \<lparr>inputType = req_inputType request,
      originalInput = req_originalInput request,
      ai_detectedContext = req_detectedContext request,
      ai_signals = converted,
      ai_businessPriority = None,
      ai_companyAssessment = None,
      ai_concernCount =
        int (length (filter (\<lambda>s. map_of s ''category'' = Some (JStr ''risk''))
                       (req_signals request))),
      ai_severityLevel = ''low''\<rparr>"

definition summary_try ::
  "Unicode \<Rightarrow> (json \<Rightarrow> string option) \<Rightarrow> string option \<Rightarrow> (string \<Rightarrow> http_outcome) \<Rightarrow> AIGenerateRequest \<Rightarrow>
     py_error + AIGenerateResponse" where
  \<comment> \<open>the \<open>try\<close> block of the endpoint\<close>
  "summary_try u validate_str api_key post request =
     (case convert_signals validate_str (req_signals request) [] of
        Inl e \<Rightarrow> Inl e
      | Inr converted \<Rightarrow>
          (case ai_generate_summary u api_key post (request_ai_input request converted) of
             Inl e \<Rightarrow> Inl e
           | Inr result \<Rightarrow>
               Inr \<lparr>resp_summary = ai_summary result, modelUsed = ''trustlens-v3'',
                    fallback = False\<rparr>))"

definition api_generate_summary ::
  "Unicode \<Rightarrow> (json \<Rightarrow> string option) \<Rightarrow> string option \<Rightarrow> (string \<Rightarrow> http_outcome) \<Rightarrow> AIGenerateRequest \<Rightarrow>
     AIGenerateResponse" where
  \<comment> \<open>the handler of \<open>POST /api/generate-summary\<close>: any exception gives the fallback\<close>
  "api_generate_summary u validate_str api_key post request =
     (case summary_try u validate_str api_key post request of
        Inl e \<Rightarrow>
          \<lparr>resp_summary = ''Analysis complete. Review the detected signals.'',
           modelUsed = ''fallback'', fallback = True\<rparr>
      | Inr response \<Rightarrow> response)"

section \<open>Vocabulary of the statements\<close>

definition contexts :: "string set" where
  \<comment> \<open>the five context tags of the data model\<close>
  "contexts = {''legal_agreement'', ''partnership_offer'', ''client_inquiry'', ''vendor_proposal'', ''consumer_message''}"

definition well_shaped :: "json \<Rightarrow> bool" where
  \<comment> \<open>the expected shape of an enhancement response: an object whose \<open>candidates\<close> start
     with an object whose \<open>content\<close> has \<open>parts\<close> that start with an object with a string
     \<open>text\<close>\<close>
  "well_shaped result =
     (case result of
        JObj kvs \<Rightarrow>
          (case map_of kvs ''candidates'' of
             Some (JArr (JObj candidate # _)) \<Rightarrow>
               (case map_of candidate ''content'' of
                  Some (JObj content) \<Rightarrow>
                    (case map_of content ''parts'' of
                       Some (JArr (JObj part # _)) \<Rightarrow>
                         (case map_of part ''text'' of Some (JStr _) \<Rightarrow> True | _ \<Rightarrow> False)
                     | _ \<Rightarrow> False)
                | _ \<Rightarrow> False)
           | _ \<Rightarrow> False)
      | _ \<Rightarrow> False)"

definition enhancement_failed :: "http_outcome \<Rightarrow> bool" where
  \<comment> \<open>the call raised (a timeout included), the status is not 200, the body is not JSON,
     or the body lacks the expected shape\<close>
  "enhancement_failed outcome =
     (case outcome of
        Raises \<Rightarrow> True
      | Response status_code body \<Rightarrow>
          status_code \<noteq> 200 \<or> (case body of None \<Rightarrow> True | Some result \<Rightarrow> \<not> well_shaped result))"

definition example_input :: AIInput where
  \<comment> \<open>an input of high severity, for which the enhancement is attempted when a key is set\<close>
  "example_input =
     \<lparr>inputType = ''text'', originalInput = ''x'', ai_detectedContext = ''legal_agreement'',
      ai_signals = [], ai_businessPriority = None, ai_companyAssessment = None,
      ai_concernCount = 3, ai_severityLevel = ''high''\<rparr>"

definition example_other :: AIInput where
  \<comment> \<open>the example input in another context\<close>
  "example_other = example_input\<lparr>ai_detectedContext := ''consumer_message''\<rparr>"

definition example_response :: json where
  \<comment> \<open>a response of the expected shape\<close>
  "example_response =
     JObj [(''candidates'',
        JArr [JObj [(''content'', JObj [(''parts'', JArr [JObj [(''text'', JStr '' Rewritten. '')]])])]])]"

definition bad_request :: AIGenerateRequest where
  \<comment> \<open>a request whose signal has an object where the \<open>id\<close> string is expected\<close>
  "bad_request =
     \<lparr>req_inputType = ''text'', req_originalInput = ''x'', req_detectedContext = ''legal_agreement'',
      req_signals = [[(''id'', JObj [])]],
      req_businessPriority = None, req_companyAssessment = None\<rparr>"

definition good_request :: AIGenerateRequest where
  \<comment> \<open>a request with one well-formed risk signal\<close>
  "good_request =
     \<lparr>req_inputType = ''text'', req_originalInput = ''x'', req_detectedContext = ''legal_agreement'',
      req_signals = [[(''category'', JStr ''risk''), (''title'', JStr ''Class Action Waiver'')]],
      req_businessPriority = None, req_companyAssessment = None\<rparr>"

section \<open>Facts about text\<close>

lemma starts_with_iff: "starts_with s p \<longleftrightarrow> (\<exists>t. s = p @ t)"
  by (induction p arbitrary: s) (auto split: list.splits)

lemma str_in_iff: "str_in needle hay \<longleftrightarrow> (\<exists>pre post. hay = pre @ needle @ post)"
proof (induction hay)
  case Nil
  then show ?case by auto
next
  case (Cons c cs)
  show ?case
  proof
    assume "str_in needle (c # cs)"
    then consider "starts_with (c # cs) needle" | "str_in needle cs" by auto
    then show "\<exists>pre post. c # cs = pre @ needle @ post"
    proof cases
      case 1
      then obtain t where "c # cs = needle @ t" by (auto simp: starts_with_iff)
      then have "c # cs = [] @ needle @ t" by simp
      then show ?thesis by blast
    next
      case 2
      with Cons.IH obtain pre post where "cs = pre @ needle @ post" by auto
      then have "c # cs = (c # pre) @ needle @ post" by simp
      then show ?thesis by blast
    qed
  next
    assume "\<exists>pre post. c # cs = pre @ needle @ post"
    then obtain pre post where eq: "c # cs = pre @ needle @ post" by auto
    show "str_in needle (c # cs)"
    proof (cases pre)
      case Nil
      with eq have "starts_with (c # cs) needle" by (auto simp: starts_with_iff)
      then show ?thesis by simp
    next
      case (Cons d ds)
      with eq have "cs = ds @ needle @ post" by simp
      with Cons.IH have "str_in needle cs" by auto
      then show ?thesis by simp
    qed
  qed
qed

lemma lower_append: "lower (s @ t) = lower s @ lower t"
  by (simp add: lower_def)

lemma str_in_lower:
  assumes "str_in needle hay" and "lower needle = needle"
  shows "str_in needle (lower hay)"
proof -
  from assms(1) obtain pre post where "hay = pre @ needle @ post"
    by (auto simp: str_in_iff)
  then have "lower hay = lower pre @ needle @ lower post"
    by (simp add: lower_append assms(2))
  then show ?thesis unfolding str_in_iff by blast
qed

lemma sum_ones: "sum_list (map (\<lambda>x. 1) xs) = int (length xs)"
  by (induction xs) auto

lemma two_members_length:
  assumes "x \<in> set xs" and "y \<in> set xs" and "x \<noteq> y"
  shows "2 \<le> length xs"
proof -
  have "{x, y} \<subseteq> set xs" using assms by simp
  then have "card {x, y} \<le> card (set xs)" by (intro card_mono) auto
  moreover have "card {x, y} = 2" using assms(3) by simp
  moreover have "card (set xs) \<le> length xs" by (rule card_length)
  ultimately show ?thesis by linarith
qed

section \<open>Properties of the context detector\<close>

lemma any_in_append: "any_in (xs @ ys) text \<longleftrightarrow> any_in xs text \<or> any_in ys text"
  by (simp add: any_in_def)

lemma any_in_iff: "any_in ws text \<longleftrightarrow> (\<exists>w \<in> set ws. str_in w text)"
  by (simp add: any_in_def list_ex_iff)

lemma legal_count_eq: "legal_count low = int (length (filter (\<lambda>m. str_in m low) legal_markers))"
  by (simp add: legal_count_def sum_ones)

lemma legal_count_two:
  assumes "m1 \<in> set legal_markers" "m2 \<in> set legal_markers" "m1 \<noteq> m2"
    and "str_in m1 low" "str_in m2 low"
  shows "2 \<le> legal_count low"
proof -
  have "m1 \<in> set (filter (\<lambda>m. str_in m low) legal_markers)"
    and "m2 \<in> set (filter (\<lambda>m. str_in m low) legal_markers)"
    using assms by simp_all
  from two_members_length [OF this assms(3)] show ?thesis
    by (simp add: legal_count_eq)
qed

lemma legal_count_none:
  assumes "\<not> any_in legal_markers low"
  shows "legal_count low = 0"
proof -
  have "filter (\<lambda>m. str_in m low) legal_markers = []"
    using assms by (auto simp: any_in_iff filter_empty_conv)
  then show ?thesis by (simp add: legal_count_eq)
qed

lemma detect_context_in_contexts: "detect_context content content_type \<in> contexts"
  by (simp add: detect_context_def contexts_def Let_def)

lemma lower_tos: "lower ''terms of service'' = ''terms of service''"
  by (simp add: lower_def lower_char_def)

lemma lower_ua: "lower ''user agreement'' = ''user agreement''"
  by (simp add: lower_def lower_char_def)

lemma detect_context_strong_marker:
  assumes "str_in ''terms of service'' (lower content) \<or> str_in ''user agreement'' (lower content)"
  shows "detect_context content content_type = ''legal_agreement''"
  using assms by (auto simp: detect_context_def Let_def)

lemma detect_context_default:
  assumes "\<not> any_in (legal_markers @ partnership_words @ client_words @ vendor_words) (lower content)"
  shows "detect_context content content_type = ''consumer_message''"
proof -
  from assms have l: "\<not> any_in legal_markers (lower content)"
    and p: "\<not> any_in partnership_words (lower content)"
    and c: "\<not> any_in client_words (lower content)"
    and v: "\<not> any_in vendor_words (lower content)"
    by (simp_all add: any_in_append)
  from l have "\<not> str_in ''terms of service'' (lower content)"
    and "\<not> str_in ''user agreement'' (lower content)"
    by (simp_all add: any_in_def legal_markers_def)
  with legal_count_none [OF l] p c v show ?thesis
    by (simp add: detect_context_def Let_def)
qed

lemma legal_markers_lower: "m \<in> set legal_markers \<Longrightarrow> lower m = m"
  by (auto simp: legal_markers_def lower_def lower_char_def)

lemma marker_in_lower:
  assumes "m \<in> set legal_markers" and "str_in m content \<or> str_in m (lower content)"
  shows "str_in m (lower content)"
  using assms str_in_lower [OF _ legal_markers_lower] by blast

text \<open>
  Claim C4. A text that contains "terms of service" or "user agreement" (as it stands or
  after lower-casing), or whose lower-cased form contains two different phrases of the
  legal-marker list, is classified \<open>legal_agreement\<close>. A text that contains none of the
  legal, partnership, client or vendor keywords is classified \<open>consumer_message\<close>.
  Every text, the empty one included, gets one of the five context tags: the function is
  total and has no error result.
\<close>

theorem detect_context_legal_and_default:
  "(str_in ''terms of service'' content \<or> str_in ''user agreement'' content \<or>
    str_in ''terms of service'' (lower content) \<or> str_in ''user agreement'' (lower content) \<or>
    (\<exists>m1 \<in> set legal_markers. \<exists>m2 \<in> set legal_markers.
        m1 \<noteq> m2 \<and> (str_in m1 content \<or> str_in m1 (lower content)) \<and>
        (str_in m2 content \<or> str_in m2 (lower content)))
    \<longrightarrow> detect_context content content_type = ''legal_agreement'') \<and>
   (\<not> any_in (legal_markers @ partnership_words @ client_words @ vendor_words) (lower content)
    \<longrightarrow> detect_context content content_type = ''consumer_message'') \<and>
   detect_context content content_type \<in> contexts \<and>
   detect_context [] content_type = ''consumer_message''"
proof (intro conjI impI)
  assume "str_in ''terms of service'' content \<or> str_in ''user agreement'' content \<or>
    str_in ''terms of service'' (lower content) \<or> str_in ''user agreement'' (lower content) \<or>
    (\<exists>m1 \<in> set legal_markers. \<exists>m2 \<in> set legal_markers.
        m1 \<noteq> m2 \<and> (str_in m1 content \<or> str_in m1 (lower content)) \<and>
        (str_in m2 content \<or> str_in m2 (lower content)))"
  then consider
      (raw) "str_in ''terms of service'' content \<or> str_in ''user agreement'' content"
    | (strong) "str_in ''terms of service'' (lower content) \<or> str_in ''user agreement'' (lower content)"
    | (pair) "\<exists>m1 \<in> set legal_markers. \<exists>m2 \<in> set legal_markers.
        m1 \<noteq> m2 \<and> (str_in m1 content \<or> str_in m1 (lower content)) \<and>
        (str_in m2 content \<or> str_in m2 (lower content))"
    by argo
  then show "detect_context content content_type = ''legal_agreement''"
  proof cases
    case raw
    then have "str_in ''terms of service'' (lower content) \<or> str_in ''user agreement'' (lower content)"
    proof
      assume "str_in ''terms of service'' content"
      then have "str_in ''terms of service'' (lower content)" using lower_tos by (rule str_in_lower)
      then show ?thesis by (rule disjI1)
    next
      assume "str_in ''user agreement'' content"
      then have "str_in ''user agreement'' (lower content)" using lower_ua by (rule str_in_lower)
      then show ?thesis by (rule disjI2)
    qed
    then show ?thesis by (rule detect_context_strong_marker)
  next
    case strong
    then show ?thesis by (rule detect_context_strong_marker)
  next
    case pair
    then obtain m1 m2 where m: "m1 \<in> set legal_markers" "m2 \<in> set legal_markers" "m1 \<noteq> m2"
      and c: "str_in m1 content \<or> str_in m1 (lower content)"
        "str_in m2 content \<or> str_in m2 (lower content)"
      by (elim bexE conjE)
    from m(1) c(1) have 1: "str_in m1 (lower content)" by (rule marker_in_lower)
    from m(2) c(2) have 2: "str_in m2 (lower content)" by (rule marker_in_lower)
    from m 1 2 have "2 \<le> legal_count (lower content)" by (rule legal_count_two)
    then show ?thesis by (simp add: detect_context_def Let_def)
  qed
next
  assume "\<not> any_in (legal_markers @ partnership_words @ client_words @ vendor_words) (lower content)"
  then show "detect_context content content_type = ''consumer_message''"
    by (rule detect_context_default)
next
  show "detect_context content content_type \<in> contexts"
    by (rule detect_context_in_contexts)
next
  show "detect_context [] content_type = ''consumer_message''"
    by code_simp
qed

lemma ex_legal: "detect_context ''Terms of Service'' t = ''legal_agreement''" by code_simp
lemma ex_partner: "detect_context ''A partnership'' t = ''partnership_offer''" by code_simp
lemma ex_client: "detect_context ''Client inquiry'' t = ''client_inquiry''" by code_simp
lemma ex_vendor: "detect_context ''Our pricing'' t = ''vendor_proposal''" by code_simp
lemma ex_consumer: "detect_context ''We are hiring'' t = ''consumer_message''" by code_simp

theorem detect_context_legal_and_default_witness:
  "str_in ''privacy policy'' (lower ''Privacy Policy and Contract'') \<and>
   str_in ''contract'' (lower ''Privacy Policy and Contract'') \<and>
   detect_context ''Privacy Policy and Contract'' ''text'' = ''legal_agreement'' \<and>
   str_in ''user agreement'' ''This user agreement binds you'' \<and>
   detect_context ''This user agreement binds you'' ''text'' = ''legal_agreement'' \<and>
   \<not> any_in (legal_markers @ partnership_words @ client_words @ vendor_words) (lower ''Hello there'') \<and>
   detect_context ''Hello there'' ''text'' = ''consumer_message''"
proof -
  have a: "str_in ''privacy policy'' (lower ''Privacy Policy and Contract'')" by code_simp
  have b: "str_in ''contract'' (lower ''Privacy Policy and Contract'')" by code_simp
  have u: "str_in ''user agreement'' ''This user agreement binds you''" by code_simp
  have m: "''privacy policy'' \<in> set legal_markers" "''contract'' \<in> set legal_markers"
    by (simp_all add: legal_markers_def)
  have n: "\<not> any_in (legal_markers @ partnership_words @ client_words @ vendor_words) (lower ''Hello there'')"
    by code_simp
  have d: "''privacy policy'' \<noteq> ''contract''" by simp
  from a b d have "''privacy policy'' \<noteq> ''contract'' \<and>
        (str_in ''privacy policy'' ''Privacy Policy and Contract'' \<or>
         str_in ''privacy policy'' (lower ''Privacy Policy and Contract'')) \<and>
        (str_in ''contract'' ''Privacy Policy and Contract'' \<or>
         str_in ''contract'' (lower ''Privacy Policy and Contract''))"
    by (intro conjI disjI2)
  with m have "\<exists>m1 \<in> set legal_markers. \<exists>m2 \<in> set legal_markers.
        m1 \<noteq> m2 \<and>
        (str_in m1 ''Privacy Policy and Contract'' \<or> str_in m1 (lower ''Privacy Policy and Contract'')) \<and>
        (str_in m2 ''Privacy Policy and Contract'' \<or> str_in m2 (lower ''Privacy Policy and Contract''))"
    by (intro bexI [of _ "''privacy policy''"] bexI [of _ "''contract''"])
  then have 1: "detect_context ''Privacy Policy and Contract'' ''text'' = ''legal_agreement''"
    using detect_context_legal_and_default [of "''Privacy Policy and Contract''" "''text''"]
    by argo
  from u have 2: "detect_context ''This user agreement binds you'' ''text'' = ''legal_agreement''"
    using detect_context_legal_and_default [of "''This user agreement binds you''" "''text''"]
    by argo
  from n have 3: "detect_context ''Hello there'' ''text'' = ''consumer_message''"
    using detect_context_legal_and_default [of "''Hello there''" "''text''"]
    by argo
  from a b u n 1 2 3 show ?thesis by (intro conjI)
qed

text \<open>
  Claim C10. When the employment-keyword test is the first branch that matches, the
  result is \<open>consumer_message\<close>, the value that the fallback gives when no branch
  matches. Over all texts, the results are exactly the five context tags: there is no
  employment tag.
\<close>

theorem detect_context_range:
  "(legal_count (lower content) < 2 \<and>
    \<not> str_in ''terms of service'' (lower content) \<and>
    \<not> str_in ''user agreement'' (lower content) \<and>
    \<not> any_in partnership_words (lower content) \<and>
    \<not> any_in client_words (lower content) \<and>
    \<not> (any_in vendor_words (lower content) \<and> \<not> str_in ''contract'' (lower content)) \<and>
    any_in employment_words (lower content)
    \<longrightarrow> detect_context content content_type = ''consumer_message'') \<and>
   (legal_count (lower content) < 2 \<and>
    \<not> str_in ''terms of service'' (lower content) \<and>
    \<not> str_in ''user agreement'' (lower content) \<and>
    \<not> any_in partnership_words (lower content) \<and>
    \<not> any_in client_words (lower content) \<and>
    \<not> (any_in vendor_words (lower content) \<and> \<not> str_in ''contract'' (lower content)) \<and>
    \<not> any_in employment_words (lower content)
    \<longrightarrow> detect_context content content_type = ''consumer_message'') \<and>
   range (\<lambda>text. detect_context text content_type) =
     {''legal_agreement'', ''partnership_offer'', ''client_inquiry'', ''vendor_proposal'',
      ''consumer_message''}"
proof (intro conjI impI)
  show "range (\<lambda>text. detect_context text content_type) =
     {''legal_agreement'', ''partnership_offer'', ''client_inquiry'', ''vendor_proposal'',
      ''consumer_message''}" (is "?R = ?S")
  proof
    show "?R \<subseteq> ?S" using detect_context_in_contexts by (auto simp: contexts_def)
    have "detect_context ''Terms of Service'' content_type \<in> ?R"
      "detect_context ''A partnership'' content_type \<in> ?R"
      "detect_context ''Client inquiry'' content_type \<in> ?R"
      "detect_context ''Our pricing'' content_type \<in> ?R"
      "detect_context ''We are hiring'' content_type \<in> ?R"
      by (rule rangeI)+
    then show "?S \<subseteq> ?R"
      unfolding ex_legal ex_partner ex_client ex_vendor ex_consumer by blast
  qed
qed (simp_all add: detect_context_def Let_def)

theorem detect_context_range_witness:
  "legal_count (lower ''We are hiring'') < 2 \<and>
   \<not> any_in partnership_words (lower ''We are hiring'') \<and>
   any_in employment_words (lower ''We are hiring'') \<and>
   detect_context ''We are hiring'' ''text'' = ''consumer_message''"
proof -
  have h: "legal_count (lower ''We are hiring'') < 2 \<and>
    \<not> str_in ''terms of service'' (lower ''We are hiring'') \<and>
    \<not> str_in ''user agreement'' (lower ''We are hiring'') \<and>
    \<not> any_in partnership_words (lower ''We are hiring'') \<and>
    \<not> any_in client_words (lower ''We are hiring'') \<and>
    \<not> (any_in vendor_words (lower ''We are hiring'') \<and> \<not> str_in ''contract'' (lower ''We are hiring'')) \<and>
    any_in employment_words (lower ''We are hiring'')"
    by code_simp
  with detect_context_range [of "''We are hiring''" "''text''"] show ?thesis by blast
qed

section \<open>Properties of the signal rules\<close>

lemma evaluate_all_loop_eq:
  "evaluate_all_loop u ps low acc =
     acc @ map (\<lambda>(pattern, nm, sev). clause_signal nm sev)
             (filter (\<lambda>(pattern, nm, sev). re_search u pattern low) ps)"
  by (induction u ps low acc rule: evaluate_all_loop.induct) auto

lemma evaluate_all_legal:
  "evaluate_all u content ''legal_agreement'' =
     map (\<lambda>(pattern, nm, sev). clause_signal nm sev)
       (filter (\<lambda>(pattern, nm, sev). re_search u pattern (py_lower u content)) CONCERNING_PATTERNS)"
  by (simp add: evaluate_all_def evaluate_all_loop_eq)

lemma clause_signal_name: "name (clause_signal nm sev) = nm"
  by (simp add: clause_signal_def Let_def)

lemma clause_signal_level:
  "level (clause_signal nm sev) = (if sev = ''VERY_HIGH'' \<or> sev = ''HIGH'' then RED else YELLOW)"
  by (simp add: clause_signal_def Let_def)

lemma clause_signal_confidence:
  "confidence (clause_signal nm ''VERY_HIGH'') = 0.95"
  "confidence (clause_signal nm ''HIGH'') = 0.85"
  "confidence (clause_signal nm ''MEDIUM'') = 0.75"
  by (simp_all add: clause_signal_def Let_def)

lemma legal_example:
  "filter (\<lambda>(pattern, nm, sev). re_search u pattern (py_lower u ''We sell data; no compensation; terms survive death.''))
     CONCERNING_PATTERNS =
   [CONCERNING_PATTERNS ! 3, CONCERNING_PATTERNS ! 6, CONCERNING_PATTERNS ! 12]"
  by code_simp

lemma legal_example_tuples:
  "snd (CONCERNING_PATTERNS ! 3) = (''Data Monetization Rights'', ''VERY_HIGH'')"
  "snd (CONCERNING_PATTERNS ! 6) = (''Asset Forfeiture on Termination'', ''HIGH'')"
  "snd (CONCERNING_PATTERNS ! 12) = (''Perpetual Obligation'', ''MEDIUM'')"
  by (simp_all add: CONCERNING_PATTERNS_def)

text \<open>
  Claim C3. In a context other than \<open>legal_agreement\<close> the legal clause rule emits
  nothing. In \<open>legal_agreement\<close> it emits one signal for each pattern tuple whose
  pattern matches the lower-cased content, in the order of the tuples: the signal has the
  tuple's name, is red when the tuple's severity is VERY_HIGH or HIGH and yellow
  otherwise, and has confidence 0.95, 0.85 or 0.75 for VERY_HIGH, HIGH or MEDIUM (the only
  severities in the table). Some text makes it emit more than one signal, while each of
  the other two rules adds at most one signal per evaluation.
\<close>

theorem legal_clause_rule:
  "(context \<noteq> ''legal_agreement'' \<longrightarrow> evaluate_all u content context = []) \<and>
   list_all2
     (\<lambda>(pattern, nm, sev) s.
        name s = nm \<and>
        level s = (if sev = ''VERY_HIGH'' \<or> sev = ''HIGH'' then RED else YELLOW) \<and>
        (sev = ''VERY_HIGH'' \<longrightarrow> confidence s = 0.95) \<and>
        (sev = ''HIGH'' \<longrightarrow> confidence s = 0.85) \<and>
        (sev = ''MEDIUM'' \<longrightarrow> confidence s = 0.75))
     (filter (\<lambda>(pattern, nm, sev). re_search u pattern (py_lower u content)) CONCERNING_PATTERNS)
     (evaluate_all u content ''legal_agreement'') \<and>
   (\<forall>(pattern, nm, sev) \<in> set CONCERNING_PATTERNS. sev \<in> {''VERY_HIGH'', ''HIGH'', ''MEDIUM''}) \<and>
   (\<exists>text. 1 < length (evaluate_all u text ''legal_agreement'')) \<and>
   length (run_rules u [HighPressurePatternRule] content content_type context []) \<le> 1 \<and>
   length (run_rules u [VerifiabilityRule] content content_type context []) \<le> 1"
proof (intro conjI impI)
  assume "context \<noteq> ''legal_agreement''"
  then show "evaluate_all u content context = []" by (simp add: evaluate_all_def)
next
  show "list_all2
     (\<lambda>(pattern, nm, sev) s.
        name s = nm \<and>
        level s = (if sev = ''VERY_HIGH'' \<or> sev = ''HIGH'' then RED else YELLOW) \<and>
        (sev = ''VERY_HIGH'' \<longrightarrow> confidence s = 0.95) \<and>
        (sev = ''HIGH'' \<longrightarrow> confidence s = 0.85) \<and>
        (sev = ''MEDIUM'' \<longrightarrow> confidence s = 0.75))
     (filter (\<lambda>(pattern, nm, sev). re_search u pattern (py_lower u content)) CONCERNING_PATTERNS)
     (evaluate_all u content ''legal_agreement'')"
    unfolding evaluate_all_legal list_all2_map2
    by (rule list_all2_refl)
      (auto simp: clause_signal_name clause_signal_level clause_signal_confidence)
next
  show "\<forall>(pattern, nm, sev) \<in> set CONCERNING_PATTERNS. sev \<in> {''VERY_HIGH'', ''HIGH'', ''MEDIUM''}"
    by (simp add: CONCERNING_PATTERNS_def)
next
  have "length (evaluate_all u ''We sell data; no compensation; terms survive death.'' ''legal_agreement'') = 3"
    by (simp add: evaluate_all_legal legal_example)
  then have "1 < length (evaluate_all u ''We sell data; no compensation; terms survive death.'' ''legal_agreement'')"
    by simp
  then show "\<exists>text. 1 < length (evaluate_all u text ''legal_agreement'')"
    by (rule exI [where x = "''We sell data; no compensation; terms survive death.''"])
next
  show "length (run_rules u [HighPressurePatternRule] content content_type context []) \<le> 1"
    by (simp split: option.splits)
next
  show "length (run_rules u [VerifiabilityRule] content content_type context []) \<le> 1"
    by (simp split: option.splits)
qed

theorem legal_clause_rule_witness:
  "\<forall>u.
    evaluate_all u ''We sell data; no compensation; terms survive death.'' ''vendor_proposal'' = [] \<and>
     map (\<lambda>s. (name s, level s, confidence s))
       (evaluate_all u ''We sell data; no compensation; terms survive death.'' ''legal_agreement'') =
     [(''Data Monetization Rights'', RED, 0.95),
      (''Asset Forfeiture on Termination'', RED, 0.85),
      (''Perpetual Obligation'', YELLOW, 0.75)]"
proof (rule allI)
  fix u
  show "evaluate_all u ''We sell data; no compensation; terms survive death.'' ''vendor_proposal'' = [] \<and>
     map (\<lambda>s. (name s, level s, confidence s))
       (evaluate_all u ''We sell data; no compensation; terms survive death.'' ''legal_agreement'') =
     [(''Data Monetization Rights'', RED, 0.95),
      (''Asset Forfeiture on Termination'', RED, 0.85),
      (''Perpetual Obligation'', YELLOW, 0.75)]"
  proof -
    let ?text = "''We sell data; no compensation; terms survive death.''"
    note rule = legal_clause_rule [of "''vendor_proposal''" u ?text "''text''"]
    have "''vendor_proposal'' \<noteq> ''legal_agreement''" by simp
    with rule have none: "evaluate_all u ?text ''vendor_proposal'' = []" by blast
    from rule have "list_all2
       (\<lambda>(pattern, nm, sev) s.
          name s = nm \<and>
          level s = (if sev = ''VERY_HIGH'' \<or> sev = ''HIGH'' then RED else YELLOW) \<and>
          (sev = ''VERY_HIGH'' \<longrightarrow> confidence s = 0.95) \<and>
          (sev = ''HIGH'' \<longrightarrow> confidence s = 0.85) \<and>
          (sev = ''MEDIUM'' \<longrightarrow> confidence s = 0.75))
       [CONCERNING_PATTERNS ! 3, CONCERNING_PATTERNS ! 6, CONCERNING_PATTERNS ! 12]
       (evaluate_all u ?text ''legal_agreement'')"
      unfolding legal_example by blast
    then obtain s1 s2 s3 where
      "evaluate_all u ?text ''legal_agreement'' = [s1, s2, s3]"
      "name s1 = ''Data Monetization Rights'' \<and> level s1 = RED \<and> confidence s1 = 0.95"
      "name s2 = ''Asset Forfeiture on Termination'' \<and> level s2 = RED \<and> confidence s2 = 0.85"
      "name s3 = ''Perpetual Obligation'' \<and> level s3 = YELLOW \<and> confidence s3 = 0.75"
      using legal_example_tuples
      by (auto simp: list_all2_Cons1 case_prod_unfold)
    with none show ?thesis by simp
  qed
qed

lemma py_int_sum4:
  "sum_list (map py_int [a, b, c, d]) = int (length (filter id [a, b, c, d]))"
  by (simp add: py_int_def)

lemma verifiable_count_cues:
  "verifiable_count u content =
     int (length (filter id
       [re_search u website_pattern content,
        re_search u linkedin_pattern (py_lower u content),
        re_search u domain_email_pattern content,
        re_search u company_name_pattern content]))"
  unfolding verifiable_count_def Let_def by (rule py_int_sum4)

lemma verifiable_count_range: "0 \<le> verifiable_count u content \<and> verifiable_count u content \<le> 4"
proof -
  have "length (filter id
       [re_search u website_pattern content,
        re_search u linkedin_pattern (py_lower u content),
        re_search u domain_email_pattern content,
        re_search u company_name_pattern content]) \<le> 4"
    using length_filter_le [of id "[re_search u website_pattern content,
        re_search u linkedin_pattern (py_lower u content),
        re_search u domain_email_pattern content,
        re_search u company_name_pattern content]"] by simp
  then show ?thesis by (simp add: verifiable_count_cues)
qed

lemma str_int_small: "str_int 1 = ''1''" "str_int 2 = ''2''"
  by (simp_all add: str_int_def)

text \<open>
  Claim C5. Whatever the context, the high-pressure rule returns the red signal
  "Predatory Pressure Pattern" with confidence 0.95 when the urgency, action-demand and
  consequence patterns all match the lower-cased content, the red signal
  "High-Pressure Tactics" with confidence 0.85 when urgency and action-demand match and
  consequence does not, and no signal otherwise.
\<close>

theorem pressure_rule:
  "(re_search u urgency_pattern (py_lower u content) \<and> re_search u action_pattern (py_lower u content) \<and>
    re_search u consequence_pattern (py_lower u content) \<longrightarrow>
      (\<exists>s. pressure_evaluate u content content_type context = Some s \<and>
           name s = ''Predatory Pressure Pattern'' \<and> level s = RED \<and> confidence s = 0.95)) \<and>
   (re_search u urgency_pattern (py_lower u content) \<and> re_search u action_pattern (py_lower u content) \<and>
    \<not> re_search u consequence_pattern (py_lower u content) \<longrightarrow>
      (\<exists>s. pressure_evaluate u content content_type context = Some s \<and>
           name s = ''High-Pressure Tactics'' \<and> level s = RED \<and> confidence s = 0.85)) \<and>
   (\<not> (re_search u urgency_pattern (py_lower u content) \<and> re_search u action_pattern (py_lower u content)) \<longrightarrow>
      pressure_evaluate u content content_type context = None)"
  by (simp add: pressure_evaluate_def Let_def)

lemma pressure_examples:
  "re_search u urgency_pattern (py_lower u ''Act now or lose access'')"
  "re_search u action_pattern (py_lower u ''Act now or lose access'')"
  "re_search u consequence_pattern (py_lower u ''Act now or lose access'')"
  "re_search u urgency_pattern (py_lower u ''Reply today'')"
  "re_search u action_pattern (py_lower u ''Reply today'')"
  "\<not> re_search u consequence_pattern (py_lower u ''Reply today'')"
  "\<not> re_search u urgency_pattern (py_lower u ''Please reply, knowing it expires'')"
  by code_simp+

theorem pressure_rule_witness:
  "\<forall>u.
    (\<exists>s. pressure_evaluate u ''Act now or lose access'' ''text'' ''legal_agreement'' = Some s \<and>
          name s = ''Predatory Pressure Pattern'' \<and> level s = RED \<and> confidence s = 0.95) \<and>
     (\<exists>s. pressure_evaluate u ''Reply today'' ''text'' ''consumer_message'' = Some s \<and>
          name s = ''High-Pressure Tactics'' \<and> level s = RED \<and> confidence s = 0.85) \<and>
     pressure_evaluate u ''Please reply, knowing it expires'' ''text'' ''vendor_proposal'' = None"
proof (rule allI)
  fix u
  show "(\<exists>s. pressure_evaluate u ''Act now or lose access'' ''text'' ''legal_agreement'' = Some s \<and>
          name s = ''Predatory Pressure Pattern'' \<and> level s = RED \<and> confidence s = 0.95) \<and>
     (\<exists>s. pressure_evaluate u ''Reply today'' ''text'' ''consumer_message'' = Some s \<and>
          name s = ''High-Pressure Tactics'' \<and> level s = RED \<and> confidence s = 0.85) \<and>
     pressure_evaluate u ''Please reply, knowing it expires'' ''text'' ''vendor_proposal'' = None"
    using pressure_rule [of u "''Act now or lose access''" "''text''" "''legal_agreement''"]
      pressure_rule [of u "''Reply today''" "''text''" "''consumer_message''"]
      pressure_rule [of u "''Please reply, knowing it expires''" "''text''" "''vendor_proposal''"]
      pressure_examples
    by blast
qed

text \<open>
  Claim C6. Outside the three business contexts the verifiability rule returns no
  signal. Inside them it counts the four cues (URL, LinkedIn reference, email domain,
  company suffix): a count of 0 gives the red signal "Zero Verifiable Identity" with
  confidence 0.9; a count of 1 or 2 gives the yellow signal "Limited Verifiability" with
  confidence 0.75 and a message that names that count out of 4; a count of 3 or 4 gives
  no signal.
\<close>

theorem verifiability_rule:
  "(context \<notin> {''partnership_offer'', ''client_inquiry'', ''vendor_proposal''} \<longrightarrow>
      verifiability_evaluate u content content_type context = None) \<and>
   (context \<in> {''partnership_offer'', ''client_inquiry'', ''vendor_proposal''} \<longrightarrow>
      (verifiable_count u content = 0 \<longrightarrow>
         (\<exists>s. verifiability_evaluate u content content_type context = Some s \<and>
              name s = ''Zero Verifiable Identity'' \<and> level s = RED \<and> confidence s = 0.9)) \<and>
      (verifiable_count u content = 1 \<longrightarrow>
         (\<exists>s. verifiability_evaluate u content content_type context = Some s \<and>
              name s = ''Limited Verifiability'' \<and> level s = YELLOW \<and> confidence s = 0.75 \<and>
              message s = ''Only 1/4 verification elements present. Request additional proof of legitimacy.'')) \<and>
      (verifiable_count u content = 2 \<longrightarrow>
         (\<exists>s. verifiability_evaluate u content content_type context = Some s \<and>
              name s = ''Limited Verifiability'' \<and> level s = YELLOW \<and> confidence s = 0.75 \<and>
              message s = ''Only 2/4 verification elements present. Request additional proof of legitimacy.'')) \<and>
      (verifiable_count u content = 3 \<or> verifiable_count u content = 4 \<longrightarrow>
         verifiability_evaluate u content content_type context = None)) \<and>
   verifiable_count u content =
     int (length (filter id
       [re_search u website_pattern content,
        re_search u linkedin_pattern (py_lower u content),
        re_search u domain_email_pattern content,
        re_search u company_name_pattern content])) \<and>
   verifiable_count u content \<in> {0, 1, 2, 3, 4}"
proof (intro conjI)
  show "context \<notin> {''partnership_offer'', ''client_inquiry'', ''vendor_proposal''} \<longrightarrow>
      verifiability_evaluate u content content_type context = None"
    by (simp add: verifiability_evaluate_def)
  show "verifiable_count u content =
     int (length (filter id
       [re_search u website_pattern content,
        re_search u linkedin_pattern (py_lower u content),
        re_search u domain_email_pattern content,
        re_search u company_name_pattern content]))"
    by (rule verifiable_count_cues)
  show "verifiable_count u content \<in> {0, 1, 2, 3, 4}"
    using verifiable_count_range [of u content] by auto
  show "context \<in> {''partnership_offer'', ''client_inquiry'', ''vendor_proposal''} \<longrightarrow>
      (verifiable_count u content = 0 \<longrightarrow>
         (\<exists>s. verifiability_evaluate u content content_type context = Some s \<and>
              name s = ''Zero Verifiable Identity'' \<and> level s = RED \<and> confidence s = 0.9)) \<and>
      (verifiable_count u content = 1 \<longrightarrow>
         (\<exists>s. verifiability_evaluate u content content_type context = Some s \<and>
              name s = ''Limited Verifiability'' \<and> level s = YELLOW \<and> confidence s = 0.75 \<and>
              message s = ''Only 1/4 verification elements present. Request additional proof of legitimacy.'')) \<and>
      (verifiable_count u content = 2 \<longrightarrow>
         (\<exists>s. verifiability_evaluate u content content_type context = Some s \<and>
              name s = ''Limited Verifiability'' \<and> level s = YELLOW \<and> confidence s = 0.75 \<and>
              message s = ''Only 2/4 verification elements present. Request additional proof of legitimacy.'')) \<and>
      (verifiable_count u content = 3 \<or> verifiable_count u content = 4 \<longrightarrow>
         verifiability_evaluate u content content_type context = None)"
  proof
    assume "context \<in> {''partnership_offer'', ''client_inquiry'', ''vendor_proposal''}"
    then have c: "\<not> context \<notin> set [''partnership_offer'', ''client_inquiry'', ''vendor_proposal'']"
      by simp
    have e: "verifiability_evaluate u content content_type context =
      (let n = verifiable_count u content in
        if n = 0 then
          Some \<lparr>name = ''Zero Verifiable Identity'', level = RED,
                message = ''No company website, LinkedIn, corporate email, or legal name provided. Cannot verify legitimacy.'',
                confidence = 0.9\<rparr>
        else if n \<le> 2 then
          Some \<lparr>name = ''Limited Verifiability'', level = YELLOW,
                message = ''Only '' @ str_int n @
                  ''/4 verification elements present. Request additional proof of legitimacy.'',
                confidence = 0.75\<rparr>
        else None)"
      unfolding verifiability_evaluate_def using c by (simp only: if_False)
    show "(verifiable_count u content = 0 \<longrightarrow>
         (\<exists>s. verifiability_evaluate u content content_type context = Some s \<and>
              name s = ''Zero Verifiable Identity'' \<and> level s = RED \<and> confidence s = 0.9)) \<and>
      (verifiable_count u content = 1 \<longrightarrow>
         (\<exists>s. verifiability_evaluate u content content_type context = Some s \<and>
              name s = ''Limited Verifiability'' \<and> level s = YELLOW \<and> confidence s = 0.75 \<and>
              message s = ''Only 1/4 verification elements present. Request additional proof of legitimacy.'')) \<and>
      (verifiable_count u content = 2 \<longrightarrow>
         (\<exists>s. verifiability_evaluate u content content_type context = Some s \<and>
              name s = ''Limited Verifiability'' \<and> level s = YELLOW \<and> confidence s = 0.75 \<and>
              message s = ''Only 2/4 verification elements present. Request additional proof of legitimacy.'')) \<and>
      (verifiable_count u content = 3 \<or> verifiable_count u content = 4 \<longrightarrow>
         verifiability_evaluate u content content_type context = None)"
      unfolding e by (auto simp: Let_def str_int_small)
  qed
qed

lemma verifiability_examples:
  "verifiable_count u ''Hello, we offer a partnership'' = 0"
  "verifiable_count u ''Quote from Acme Inc.'' = 1"
  "verifiable_count u ''Acme LLC, see https://acme.io'' = 2"
  "verifiable_count u ''Acme LLC, https://acme.io, bob@acme.io'' = 3"
  by code_simp+

theorem verifiability_rule_witness:
  "\<forall>u.
    verifiability_evaluate u ''Reply today'' ''text'' ''consumer_message'' = None \<and>
     (\<exists>s. verifiability_evaluate u ''Hello, we offer a partnership'' ''text'' ''partnership_offer'' = Some s \<and>
          name s = ''Zero Verifiable Identity'' \<and> level s = RED \<and> confidence s = 0.9) \<and>
     (\<exists>s. verifiability_evaluate u ''Quote from Acme Inc.'' ''text'' ''vendor_proposal'' = Some s \<and>
          name s = ''Limited Verifiability'' \<and> level s = YELLOW \<and> confidence s = 0.75 \<and>
          message s = ''Only 1/4 verification elements present. Request additional proof of legitimacy.'') \<and>
     (\<exists>s. verifiability_evaluate u ''Acme LLC, see https://acme.io'' ''text'' ''client_inquiry'' = Some s \<and>
          name s = ''Limited Verifiability'' \<and> level s = YELLOW \<and> confidence s = 0.75 \<and>
          message s = ''Only 2/4 verification elements present. Request additional proof of legitimacy.'') \<and>
     verifiability_evaluate u ''Acme LLC, https://acme.io, bob@acme.io'' ''text'' ''vendor_proposal'' = None"
proof (rule allI)
  fix u
  show "verifiability_evaluate u ''Reply today'' ''text'' ''consumer_message'' = None \<and>
     (\<exists>s. verifiability_evaluate u ''Hello, we offer a partnership'' ''text'' ''partnership_offer'' = Some s \<and>
          name s = ''Zero Verifiable Identity'' \<and> level s = RED \<and> confidence s = 0.9) \<and>
     (\<exists>s. verifiability_evaluate u ''Quote from Acme Inc.'' ''text'' ''vendor_proposal'' = Some s \<and>
          name s = ''Limited Verifiability'' \<and> level s = YELLOW \<and> confidence s = 0.75 \<and>
          message s = ''Only 1/4 verification elements present. Request additional proof of legitimacy.'') \<and>
     (\<exists>s. verifiability_evaluate u ''Acme LLC, see https://acme.io'' ''text'' ''client_inquiry'' = Some s \<and>
          name s = ''Limited Verifiability'' \<and> level s = YELLOW \<and> confidence s = 0.75 \<and>
          message s = ''Only 2/4 verification elements present. Request additional proof of legitimacy.'') \<and>
     verifiability_evaluate u ''Acme LLC, https://acme.io, bob@acme.io'' ''text'' ''vendor_proposal'' = None"
  proof -
    have a: "''consumer_message'' \<notin> {''partnership_offer'', ''client_inquiry'', ''vendor_proposal''}"
      by simp
    have b: "''partnership_offer'' \<in> {''partnership_offer'', ''client_inquiry'', ''vendor_proposal''}"
      "''vendor_proposal'' \<in> {''partnership_offer'', ''client_inquiry'', ''vendor_proposal''}"
      "''client_inquiry'' \<in> {''partnership_offer'', ''client_inquiry'', ''vendor_proposal''}"
      by simp_all
    from a verifiability_rule [of "''consumer_message''" u "''Reply today''" "''text''"]
    have 1: "verifiability_evaluate u ''Reply today'' ''text'' ''consumer_message'' = None"
      by (elim conjE) (erule mp)
    from b(1) verifiability_examples(1) [of u]
      verifiability_rule [of "''partnership_offer''" u "''Hello, we offer a partnership''" "''text''"]
    have 2: "\<exists>s. verifiability_evaluate u ''Hello, we offer a partnership'' ''text'' ''partnership_offer'' = Some s \<and>
          name s = ''Zero Verifiable Identity'' \<and> level s = RED \<and> confidence s = 0.9"
      by (elim conjE) (drule (1) mp, elim conjE, erule (1) mp)
    from b(2) verifiability_examples(2) [of u]
      verifiability_rule [of "''vendor_proposal''" u "''Quote from Acme Inc.''" "''text''"]
    have 3: "\<exists>s. verifiability_evaluate u ''Quote from Acme Inc.'' ''text'' ''vendor_proposal'' = Some s \<and>
          name s = ''Limited Verifiability'' \<and> level s = YELLOW \<and> confidence s = 0.75 \<and>
          message s = ''Only 1/4 verification elements present. Request additional proof of legitimacy.''"
      by (elim conjE) (drule (1) mp, elim conjE, erule (1) mp)
    from b(3) verifiability_examples(3) [of u]
      verifiability_rule [of "''client_inquiry''" u "''Acme LLC, see https://acme.io''" "''text''"]
    have 4: "\<exists>s. verifiability_evaluate u ''Acme LLC, see https://acme.io'' ''text'' ''client_inquiry'' = Some s \<and>
          name s = ''Limited Verifiability'' \<and> level s = YELLOW \<and> confidence s = 0.75 \<and>
          message s = ''Only 2/4 verification elements present. Request additional proof of legitimacy.''"
      by (elim conjE) (drule (1) mp, elim conjE, erule (1) mp)
    from verifiability_examples(4) [of u]
    have "verifiable_count u ''Acme LLC, https://acme.io, bob@acme.io'' = 3 \<or>
          verifiable_count u ''Acme LLC, https://acme.io, bob@acme.io'' = 4" by (rule disjI1)
    with b(2) verifiability_rule [of "''vendor_proposal''" u "''Acme LLC, https://acme.io, bob@acme.io''" "''text''"]
    have 5: "verifiability_evaluate u ''Acme LLC, https://acme.io, bob@acme.io'' ''text'' ''vendor_proposal'' = None"
      by (elim conjE) (drule (1) mp, elim conjE, erule (1) mp)
    from 1 2 3 4 5 show ?thesis by (intro conjI)
  qed
qed

section \<open>Properties of the narrative generator\<close>

lemma then_do_Inr: "then_do r f = Inr v \<longleftrightarrow> (\<exists>x. r = Inr x \<and> f x = Inr v)"
  by (cases r) (simp_all add: then_do_def)

lemma json_key_Inr: "json_key k j = Inr v \<longleftrightarrow> (\<exists>kvs. j = JObj kvs \<and> map_of kvs k = Some v)"
  by (cases j) (auto split: option.splits)

lemma json_first_Inr:
  "json_first j = Inr v \<longleftrightarrow>
     (\<exists>xs. j = JArr (v # xs)) \<or> (\<exists>s ch chs. j = JStr s \<and> chars_of s = ch # chs \<and> v = JStr ch)"
  by (induction j rule: json_first.induct) (auto split: list.splits)

lemma json_strip_Inr: "json_strip u j = Inr s \<longleftrightarrow> (\<exists>t. j = JStr t \<and> s = strip u t)"
  by (cases j) auto

lemma candidate_text_well_shaped:
  assumes "candidate_text u result = Inr txt"
  shows "well_shaped result"
proof -
  from assms obtain candidates candidate content parts part leaf where
    1: "json_key ''candidates'' result = Inr candidates" and
    2: "json_first candidates = Inr candidate" and
    3: "json_key ''content'' candidate = Inr content" and
    4: "json_key ''parts'' content = Inr parts" and
    5: "json_first parts = Inr part" and
    6: "json_key ''text'' part = Inr leaf" and
    7: "json_strip u leaf = Inr txt"
    unfolding candidate_text_def then_do_Inr by blast
  from 7 obtain t where leaf: "leaf = JStr t" by (auto simp: json_strip_Inr)
  from 6 obtain pkvs where part: "part = JObj pkvs" "map_of pkvs ''text'' = Some leaf"
    by (auto simp: json_key_Inr)
  from 5 part obtain ps where parts: "parts = JArr (JObj pkvs # ps)"
    by (auto simp: json_first_Inr)
  from 4 obtain ckvs where content: "content = JObj ckvs" "map_of ckvs ''parts'' = Some parts"
    by (auto simp: json_key_Inr)
  from 3 obtain dkvs where candidate: "candidate = JObj dkvs" "map_of dkvs ''content'' = Some content"
    by (auto simp: json_key_Inr)
  from 2 candidate obtain cs where candidates: "candidates = JArr (JObj dkvs # cs)"
    by (auto simp: json_first_Inr)
  from 1 obtain kvs where result: "result = JObj kvs" "map_of kvs ''candidates'' = Some candidates"
    by (auto simp: json_key_Inr)
  show ?thesis
    unfolding well_shaped_def
    by (simp add: result candidates candidate content parts part leaf)
qed

lemma enhance_try_Some:
  assumes "enhance_try u post prompt = Inr (Some txt)"
  shows "\<not> enhancement_failed (post prompt)"
proof (cases "post prompt")
  case Raises
  with assms show ?thesis by (simp add: enhance_try_def)
next
  case (Response status_code body)
  with assms have st: "status_code = 200"
    by (auto simp: enhance_try_def split: if_splits)
  with assms Response obtain result where body: "body = Some result"
    by (cases body) (auto simp: enhance_try_def)
  with assms Response st have "\<exists>t. candidate_text u result = Inr t"
    by (auto simp: enhance_try_def then_do_Inr split: if_splits)
  then have "well_shaped result" by (auto intro: candidate_text_well_shaped)
  with Response st body show ?thesis by (simp add: enhancement_failed_def)
qed

lemma enhance_with_gemini_failed:
  assumes "enhancement_failed (post (gemini_prompt input_data base severity))"
  shows "enhance_with_gemini u post input_data base severity = Inr None"
proof (cases "enhance_try u post (gemini_prompt input_data base severity)")
  case (Inl e)
  then show ?thesis by (simp add: enhance_with_gemini_def)
next
  case (Inr r)
  show ?thesis
  proof (cases r)
    case None
    with Inr show ?thesis by (simp add: enhance_with_gemini_def)
  next
    case (Some enhanced)
    with Inr assms enhance_try_Some show ?thesis by blast
  qed
qed

lemma post_only_at_prompt:
  assumes "post' (gemini_prompt input_data base severity) = post (gemini_prompt input_data base severity)"
  shows "enhance_with_gemini u post' input_data base severity =
         enhance_with_gemini u post input_data base severity"
  using assms by (simp add: enhance_with_gemini_def enhance_try_def)

lemma gemini_prompt_content:
  "gemini_prompt input_data base severity =
        ''You are a legal risk analyst. Rewrite this summary to be clearer and more impactful.\<newline>\<newline>SEVERITY: '' @ upper severity @
        ''\<newline>CONCERNS: '' @ join '', '' (take 4 (map title (filter (\<lambda>s. category s = ''risk'') (ai_signals input_data)))) @
        ''\<newline>\<newline>CURRENT SUMMARY:\<newline>'' @ base @
        ''\<newline>\<newline>REQUIREMENTS:\<newline>1. Be direct about the severity'' @ em_dash @ ''don't soften it\<newline>2. Explain how clauses work together to create risk\<newline>3. Use clear, serious language\<newline>4. Keep it to 2-3 sentences\<newline>5. Focus on user protection, not neutrality\<newline>\<newline>IMPROVED SUMMARY:''"
  by (simp add: gemini_prompt_def Let_def)

lemma fixed_summary:
  assumes "severity \<in> {''critical'', ''high''}"
  shows "build_compound_explanation sigs context severity =
         build_compound_explanation [] [] severity"
  using assms by (auto simp: build_compound_explanation_def)

lemma gemini_prompt_same:
  assumes "determine_severity input_data \<in> {''critical'', ''high''}"
    and "determine_severity other = determine_severity input_data"
    and "take 4 (map title (filter (\<lambda>s. category s = ''risk'') (ai_signals other))) =
         take 4 (map title (filter (\<lambda>s. category s = ''risk'') (ai_signals input_data)))"
  shows "gemini_prompt other
            (build_compound_explanation (ai_signals other) (ai_detectedContext other)
               (determine_severity other))
            (determine_severity other) =
          gemini_prompt input_data
            (build_compound_explanation (ai_signals input_data) (ai_detectedContext input_data)
              (determine_severity input_data))
            (determine_severity input_data)"
proof -
  have "build_compound_explanation (ai_signals other) (ai_detectedContext other)
          (determine_severity input_data) =
        build_compound_explanation (ai_signals input_data) (ai_detectedContext input_data)
          (determine_severity input_data)"
    using fixed_summary [OF assms(1)] by metis
  then show ?thesis
    unfolding gemini_prompt_def Let_def assms(2) using assms(3) by simp
qed

lemma no_call_without_key:
  assumes "\<not> (truthy api_key \<and> determine_severity input_data \<in> {''critical'', ''high''})"
  shows "ai_generate_summary u api_key post' input_data =
         ai_generate_summary u api_key post input_data"
  using assms by (auto simp: ai_generate_summary_def Let_def)

text \<open>
  Claim C7. The narrative generator always returns a result; an enhancement failure never
  makes it raise. In every case the "what you might miss" text and the action list are the
  ones computed from the templates. When the enhancement call raises (a timeout
  included), answers with a status other than 200, or answers with a body that is not JSON
  or lacks the expected shape, the summary is the template summary. The enhancement
  service is consulted on one prompt only, and not at all without an API key or below high
  severity: two services that answer this prompt alike give the same result. The prompt
  is the fixed instruction text around the upper-cased severity, up to four titles of risk
  signals and the template summary; it is the same for two inputs of the same high or
  critical severity and the same four risk titles, whatever their contexts, so neither the
  "what you might miss" text nor the action list is part of what is sent.
\<close>

theorem enhancement_failure_keeps_templates:
  "(\<exists>out. ai_generate_summary u api_key post input_data = Inr out \<and>
     ai_whatYouMightMiss out =
       build_what_you_might_miss (ai_signals input_data) (ai_detectedContext input_data)
         (determine_severity input_data) \<and>
     ai_actions out =
       build_actions (ai_detectedContext input_data) (determine_severity input_data)
         (ai_signals input_data) \<and>
     (enhancement_failed
        (post (gemini_prompt input_data
           (build_compound_explanation (ai_signals input_data) (ai_detectedContext input_data)
              (determine_severity input_data))
           (determine_severity input_data)))
      \<longrightarrow> ai_summary out =
            build_compound_explanation (ai_signals input_data) (ai_detectedContext input_data)
              (determine_severity input_data))) \<and>
   (\<forall>post'.
      post' (gemini_prompt input_data
           (build_compound_explanation (ai_signals input_data) (ai_detectedContext input_data)
              (determine_severity input_data))
           (determine_severity input_data)) =
      post (gemini_prompt input_data
           (build_compound_explanation (ai_signals input_data) (ai_detectedContext input_data)
              (determine_severity input_data))
           (determine_severity input_data))
      \<longrightarrow> ai_generate_summary u api_key post' input_data =
            ai_generate_summary u api_key post input_data) \<and>
   (\<forall>base severity.
      gemini_prompt input_data base severity =
        ''You are a legal risk analyst. Rewrite this summary to be clearer and more impactful.\<newline>\<newline>SEVERITY: '' @ upper severity @
        ''\<newline>CONCERNS: '' @ join '', '' (take 4 (map title (filter (\<lambda>s. category s = ''risk'') (ai_signals input_data)))) @
        ''\<newline>\<newline>CURRENT SUMMARY:\<newline>'' @ base @
        ''\<newline>\<newline>REQUIREMENTS:\<newline>1. Be direct about the severity'' @ em_dash @ ''don't soften it\<newline>2. Explain how clauses work together to create risk\<newline>3. Use clear, serious language\<newline>4. Keep it to 2-3 sentences\<newline>5. Focus on user protection, not neutrality\<newline>\<newline>IMPROVED SUMMARY:'') \<and>
   (\<not> (truthy api_key \<and> determine_severity input_data \<in> {''critical'', ''high''}) \<longrightarrow>
      (\<forall>post'. ai_generate_summary u api_key post' input_data =
         ai_generate_summary u api_key post input_data)) \<and>
   (\<forall>other.
      determine_severity input_data \<in> {''critical'', ''high''} \<and>
      determine_severity other = determine_severity input_data \<and>
      take 4 (map title (filter (\<lambda>s. category s = ''risk'') (ai_signals other))) =
        take 4 (map title (filter (\<lambda>s. category s = ''risk'') (ai_signals input_data)))
      \<longrightarrow> gemini_prompt other
            (build_compound_explanation (ai_signals other) (ai_detectedContext other)
               (determine_severity other))
            (determine_severity other) =
          gemini_prompt input_data
            (build_compound_explanation (ai_signals input_data) (ai_detectedContext input_data)
              (determine_severity input_data))
            (determine_severity input_data))"
proof (intro conjI)
  show "\<exists>out. ai_generate_summary u api_key post input_data = Inr out \<and>
     ai_whatYouMightMiss out =
       build_what_you_might_miss (ai_signals input_data) (ai_detectedContext input_data)
         (determine_severity input_data) \<and>
     ai_actions out =
       build_actions (ai_detectedContext input_data) (determine_severity input_data)
         (ai_signals input_data) \<and>
     (enhancement_failed
        (post (gemini_prompt input_data
           (build_compound_explanation (ai_signals input_data) (ai_detectedContext input_data)
              (determine_severity input_data))
           (determine_severity input_data)))
      \<longrightarrow> ai_summary out =
            build_compound_explanation (ai_signals input_data) (ai_detectedContext input_data)
              (determine_severity input_data))"
    by (auto simp: ai_generate_summary_def Let_def enhance_with_gemini_failed truthy_def)
  show "\<forall>post'.
      post' (gemini_prompt input_data
           (build_compound_explanation (ai_signals input_data) (ai_detectedContext input_data)
              (determine_severity input_data))
           (determine_severity input_data)) =
      post (gemini_prompt input_data
           (build_compound_explanation (ai_signals input_data) (ai_detectedContext input_data)
              (determine_severity input_data))
           (determine_severity input_data))
      \<longrightarrow> ai_generate_summary u api_key post' input_data =
            ai_generate_summary u api_key post input_data"
  proof (intro allI impI)
    fix post'
    assume "post' (gemini_prompt input_data
           (build_compound_explanation (ai_signals input_data) (ai_detectedContext input_data)
              (determine_severity input_data))
           (determine_severity input_data)) =
      post (gemini_prompt input_data
           (build_compound_explanation (ai_signals input_data) (ai_detectedContext input_data)
              (determine_severity input_data))
           (determine_severity input_data))"
    then have "enhance_with_gemini u post' input_data
      (build_compound_explanation (ai_signals input_data) (ai_detectedContext input_data)
              (determine_severity input_data))
      (determine_severity input_data) =
    enhance_with_gemini u post input_data
      (build_compound_explanation (ai_signals input_data) (ai_detectedContext input_data)
              (determine_severity input_data))
      (determine_severity input_data)"
      by (rule post_only_at_prompt [where post = post and post' = post'])
    then show "ai_generate_summary u api_key post' input_data =
        ai_generate_summary u api_key post input_data"
      by (auto simp: ai_generate_summary_def Let_def)
  qed
  show "\<forall>base severity.
      gemini_prompt input_data base severity =
        ''You are a legal risk analyst. Rewrite this summary to be clearer and more impactful.\<newline>\<newline>SEVERITY: '' @ upper severity @
        ''\<newline>CONCERNS: '' @ join '', '' (take 4 (map title (filter (\<lambda>s. category s = ''risk'') (ai_signals input_data)))) @
        ''\<newline>\<newline>CURRENT SUMMARY:\<newline>'' @ base @
        ''\<newline>\<newline>REQUIREMENTS:\<newline>1. Be direct about the severity'' @ em_dash @ ''don't soften it\<newline>2. Explain how clauses work together to create risk\<newline>3. Use clear, serious language\<newline>4. Keep it to 2-3 sentences\<newline>5. Focus on user protection, not neutrality\<newline>\<newline>IMPROVED SUMMARY:''"
    by (intro allI) (rule gemini_prompt_content)
  show "\<not> (truthy api_key \<and> determine_severity input_data \<in> {''critical'', ''high''}) \<longrightarrow>
      (\<forall>post'. ai_generate_summary u api_key post' input_data =
         ai_generate_summary u api_key post input_data)"
    by (intro allI impI) (rule no_call_without_key)
  show "\<forall>other.
      determine_severity input_data \<in> {''critical'', ''high''} \<and>
      determine_severity other = determine_severity input_data \<and>
      take 4 (map title (filter (\<lambda>s. category s = ''risk'') (ai_signals other))) =
        take 4 (map title (filter (\<lambda>s. category s = ''risk'') (ai_signals input_data)))
      \<longrightarrow> gemini_prompt other
            (build_compound_explanation (ai_signals other) (ai_detectedContext other)
               (determine_severity other))
            (determine_severity other) =
          gemini_prompt input_data
            (build_compound_explanation (ai_signals input_data) (ai_detectedContext input_data)
              (determine_severity input_data))
            (determine_severity input_data)"
    by (intro allI impI, elim conjE) (rule gemini_prompt_same)
qed

lemma example_input_severity: "determine_severity example_input = ''high''"
  by (simp add: determine_severity_def example_input_def)

lemma example_other_severity: "determine_severity example_other = ''high''"
  by (simp add: determine_severity_def example_input_def example_other_def)

lemma example_outcomes_failed:
  "enhancement_failed Raises"
  "enhancement_failed (Response 503 None)"
  "enhancement_failed (Response 200 None)"
  "enhancement_failed (Response 200 (Some (JObj [(''candidates'', JArr [])])))"
  by (simp_all add: enhancement_failed_def well_shaped_def)

lemma gemini_prompt_nonempty: "gemini_prompt input_data base severity \<noteq> []"
  by (simp add: gemini_prompt_def Let_def)

lemma strip_example: "strip u '' Rewritten. '' = ''Rewritten.''"
  by code_simp

lemma enhancement_success_example:
  "ai_generate_summary u (Some ''key'') (\<lambda>prompt. Response 200 (Some example_response))
     example_input =
   Inr \<lparr>ai_summary = ''Rewritten.'',
        ai_whatYouMightMiss = build_what_you_might_miss [] ''legal_agreement'' ''high'',
        ai_actions = build_actions ''legal_agreement'' ''high'' []\<rparr>"
  by (simp add: ai_generate_summary_def Let_def determine_severity_def truthy_def
      enhance_with_gemini_def enhance_try_def then_do_def candidate_text_def strip_example
      example_input_def example_response_def seq_len_def)

lemma example_texts_differ:
  "build_what_you_might_miss [] ''consumer_message'' ''high'' \<noteq>
   build_what_you_might_miss [] ''legal_agreement'' ''high''"
  "build_actions ''consumer_message'' ''high'' [] \<noteq> build_actions ''legal_agreement'' ''high'' []"
  by (simp_all add: build_what_you_might_miss_def build_actions_def octagonal_sign_def
      warning_sign_def)

theorem enhancement_failure_keeps_templates_witness:
  "\<forall>u.
    (\<exists>out. ai_generate_summary u (Some ''key'') (\<lambda>prompt. Raises) example_input = Inr out \<and>
        ai_summary out = build_compound_explanation [] ''legal_agreement'' ''high'' \<and>
        ai_whatYouMightMiss out = build_what_you_might_miss [] ''legal_agreement'' ''high'' \<and>
        ai_actions out = build_actions ''legal_agreement'' ''high'' []) \<and>
    (\<exists>out. ai_generate_summary u (Some ''key'') (\<lambda>prompt. Response 503 None) example_input = Inr out \<and>
        ai_summary out = build_compound_explanation [] ''legal_agreement'' ''high'') \<and>
    (\<exists>out. ai_generate_summary u (Some ''key'')
          (\<lambda>prompt. Response 200 (Some (JObj [(''candidates'', JArr [])]))) example_input = Inr out \<and>
        ai_summary out = build_compound_explanation [] ''legal_agreement'' ''high'') \<and>
    (\<exists>out. ai_generate_summary u (Some ''key'')
          (\<lambda>prompt. if prompt = [] then Raises else Response 200 (Some example_response))
          example_input = Inr out \<and>
        ai_generate_summary u (Some ''key'') (\<lambda>prompt. Response 200 (Some example_response))
          example_input = Inr out \<and>
        ai_summary out = ''Rewritten.'' \<and>
        ai_whatYouMightMiss out = build_what_you_might_miss [] ''legal_agreement'' ''high'' \<and>
        ai_actions out = build_actions ''legal_agreement'' ''high'' []) \<and>
    ai_generate_summary u None (\<lambda>prompt. Response 200 (Some example_response)) example_input =
      ai_generate_summary u None (\<lambda>prompt. Raises) example_input \<and>
    gemini_prompt example_other
      (build_compound_explanation [] ''consumer_message'' ''high'') ''high'' =
      gemini_prompt example_input
        (build_compound_explanation [] ''legal_agreement'' ''high'') ''high'' \<and>
    build_what_you_might_miss [] ''consumer_message'' ''high'' \<noteq>
      build_what_you_might_miss [] ''legal_agreement'' ''high'' \<and>
    build_actions ''consumer_message'' ''high'' [] \<noteq> build_actions ''legal_agreement'' ''high'' []"
proof (rule allI)
  fix u
  have fields: "ai_signals example_input = []" "ai_detectedContext example_input = ''legal_agreement''"
    "ai_signals example_other = []" "ai_detectedContext example_other = ''consumer_message''"
    by (simp_all add: example_input_def example_other_def)
  note raises = enhancement_failure_keeps_templates [of u "Some ''key''" "\<lambda>prompt. Raises" example_input,
      unfolded fields example_input_severity]
  from raises example_outcomes_failed(1)
  have 1: "\<exists>out. ai_generate_summary u (Some ''key'') (\<lambda>prompt. Raises) example_input = Inr out \<and>
      ai_summary out = build_compound_explanation [] ''legal_agreement'' ''high'' \<and>
      ai_whatYouMightMiss out = build_what_you_might_miss [] ''legal_agreement'' ''high'' \<and>
      ai_actions out = build_actions ''legal_agreement'' ''high'' []"
    by blast
  from enhancement_failure_keeps_templates [of u "Some ''key''" "\<lambda>prompt. Response 503 None" example_input,
      unfolded fields example_input_severity] example_outcomes_failed(2)
  have 2: "\<exists>out. ai_generate_summary u (Some ''key'') (\<lambda>prompt. Response 503 None) example_input = Inr out \<and>
      ai_summary out = build_compound_explanation [] ''legal_agreement'' ''high''"
    by blast
  from enhancement_failure_keeps_templates [of u "Some ''key''"
        "\<lambda>prompt. Response 200 (Some (JObj [(''candidates'', JArr [])]))" example_input,
      unfolded fields example_input_severity] example_outcomes_failed(4)
  have 3: "\<exists>out. ai_generate_summary u (Some ''key'')
        (\<lambda>prompt. Response 200 (Some (JObj [(''candidates'', JArr [])]))) example_input = Inr out \<and>
      ai_summary out = build_compound_explanation [] ''legal_agreement'' ''high''"
    by blast
  note good = enhancement_failure_keeps_templates [of u "Some ''key''"
        "\<lambda>prompt. Response 200 (Some example_response)" example_input,
      unfolded fields example_input_severity]
  have same: "(if gemini_prompt example_input
          (build_compound_explanation [] ''legal_agreement'' ''high'') ''high'' = []
       then Raises else Response 200 (Some example_response)) = Response 200 (Some example_response)"
    by (simp add: gemini_prompt_nonempty)
  note eq = good [THEN conjunct2, THEN conjunct1, rule_format,
      of "\<lambda>prompt. if prompt = [] then Raises else Response 200 (Some example_response)", OF same]
  have 4: "\<exists>out. ai_generate_summary u (Some ''key'')
          (\<lambda>prompt. if prompt = [] then Raises else Response 200 (Some example_response))
          example_input = Inr out \<and>
        ai_generate_summary u (Some ''key'') (\<lambda>prompt. Response 200 (Some example_response))
          example_input = Inr out \<and>
        ai_summary out = ''Rewritten.'' \<and>
        ai_whatYouMightMiss out = build_what_you_might_miss [] ''legal_agreement'' ''high'' \<and>
        ai_actions out = build_actions ''legal_agreement'' ''high'' []"
    unfolding eq enhancement_success_example by simp
  have nokey: "\<not> (truthy None \<and> ''high'' \<in> {''critical'', ''high''})"
    by (simp add: truthy_def)
  note none = enhancement_failure_keeps_templates [of u None "\<lambda>prompt. Raises" example_input,
      unfolded fields example_input_severity]
  note 5 = none [THEN conjunct2, THEN conjunct2, THEN conjunct2, THEN conjunct1, rule_format,
      OF nokey, of "\<lambda>prompt. Response 200 (Some example_response)"]
  have hyp: "''high'' \<in> {''critical'', ''high''} \<and>
      determine_severity example_other = ''high'' \<and>
      take 4 (map title (filter (\<lambda>s. category s = ''risk'') (ai_signals example_other))) =
        take 4 (map title (filter (\<lambda>s. category s = ''risk'') []))"
    by (simp add: example_other_severity fields)
  note 6 = raises [THEN conjunct2, THEN conjunct2, THEN conjunct2, THEN conjunct2, rule_format,
      OF hyp, unfolded fields example_other_severity]
  from 1 2 3 4 5 6 example_texts_differ show
    "(\<exists>out. ai_generate_summary u (Some ''key'') (\<lambda>prompt. Raises) example_input = Inr out \<and>
        ai_summary out = build_compound_explanation [] ''legal_agreement'' ''high'' \<and>
        ai_whatYouMightMiss out = build_what_you_might_miss [] ''legal_agreement'' ''high'' \<and>
        ai_actions out = build_actions ''legal_agreement'' ''high'' []) \<and>
    (\<exists>out. ai_generate_summary u (Some ''key'') (\<lambda>prompt. Response 503 None) example_input = Inr out \<and>
        ai_summary out = build_compound_explanation [] ''legal_agreement'' ''high'') \<and>
    (\<exists>out. ai_generate_summary u (Some ''key'')
          (\<lambda>prompt. Response 200 (Some (JObj [(''candidates'', JArr [])]))) example_input = Inr out \<and>
        ai_summary out = build_compound_explanation [] ''legal_agreement'' ''high'') \<and>
    (\<exists>out. ai_generate_summary u (Some ''key'')
          (\<lambda>prompt. if prompt = [] then Raises else Response 200 (Some example_response))
          example_input = Inr out \<and>
        ai_generate_summary u (Some ''key'') (\<lambda>prompt. Response 200 (Some example_response))
          example_input = Inr out \<and>
        ai_summary out = ''Rewritten.'' \<and>
        ai_whatYouMightMiss out = build_what_you_might_miss [] ''legal_agreement'' ''high'' \<and>
        ai_actions out = build_actions ''legal_agreement'' ''high'' []) \<and>
    ai_generate_summary u None (\<lambda>prompt. Response 200 (Some example_response)) example_input =
      ai_generate_summary u None (\<lambda>prompt. Raises) example_input \<and>
    gemini_prompt example_other
      (build_compound_explanation [] ''consumer_message'' ''high'') ''high'' =
      gemini_prompt example_input
        (build_compound_explanation [] ''legal_agreement'' ''high'') ''high'' \<and>
    build_what_you_might_miss [] ''consumer_message'' ''high'' \<noteq>
      build_what_you_might_miss [] ''legal_agreement'' ''high'' \<and>
    build_actions ''consumer_message'' ''high'' [] \<noteq> build_actions ''legal_agreement'' ''high'' []"
    by (intro conjI)
qed

section \<open>Properties of the engine\<close>

lemma ai_generate_summary_total: "\<exists>out. ai_generate_summary u api_key post input_data = Inr out"
  by (simp add: ai_generate_summary_def Let_def)

lemma ai_generate_summary_templates:
  assumes "ai_generate_summary u api_key post input_data = Inr out"
  shows "ai_whatYouMightMiss out =
           build_what_you_might_miss (ai_signals input_data) (ai_detectedContext input_data)
             (determine_severity input_data)"
    and "ai_actions out =
           build_actions (ai_detectedContext input_data) (determine_severity input_data)
             (ai_signals input_data)"
    and "\<not> truthy api_key \<Longrightarrow> ai_summary out =
           build_compound_explanation (ai_signals input_data) (ai_detectedContext input_data)
             (determine_severity input_data)"
  using assms by (auto simp: ai_generate_summary_def Let_def)

lemma analyze_total: "\<exists>res. analyze u api_key post scrape content content_type = Inr res"
proof -
  obtain out where
    "ai_generate_summary u api_key post
       (make_ai_input content content_type (detect_context content content_type)
          (run_rules u rules content content_type (detect_context content content_type) [])
          (sum_list (map (\<lambda>s. 1) (filter (\<lambda>s. level s = RED)
             (run_rules u rules content content_type (detect_context content content_type) []))))
          (fst (severity_of (sum_list (map (\<lambda>s. 1) (filter (\<lambda>s. level s = RED)
             (run_rules u rules content content_type (detect_context content content_type) [])))))))
     = Inr out"
    using ai_generate_summary_total by blast
  then show ?thesis by (simp add: analyze_def Let_def case_prod_unfold)
qed

lemma analyze_fields:
  assumes "analyze u api_key post scrape content content_type = Inr res"
  shows "signals res = run_rules u rules content content_type (detect_context content content_type) []"
    and "concernCount res = sum_list (map (\<lambda>s. 1) (filter (\<lambda>s. level s = RED) (signals res)))"
    and "severityLevel res = fst (severity_of (concernCount res))"
    and "overall_score res = snd (snd (severity_of (concernCount res)))"
    and "detectedContext res = detect_context content content_type"
    and "businessPriority res =
           (if detectedContext res \<in> set [''partnership_offer'', ''client_inquiry'', ''vendor_proposal'']
            then Some (assess_business_priority (signals res) (detectedContext res) (severityLevel res))
            else None)"
    and "companyAssessment res =
           (if detectedContext res \<in> set [''partnership_offer'', ''client_inquiry'', ''vendor_proposal'']
            then Some (assess_company u content
                   (case re_find u url_pattern content of None \<Rightarrow> None | Some url \<Rightarrow> Some (scrape url)))
            else None)"
    and "\<exists>out. ai_generate_summary u api_key post
             (make_ai_input content content_type (detectedContext res) (signals res)
                (concernCount res) (severityLevel res)) = Inr out \<and>
           summary res = ai_summary out \<and> whatYouMightMiss res = ai_whatYouMightMiss out \<and>
           recommendedActions res = ai_actions out"
proof -
  let ?ctx = "detect_context content content_type"
  let ?sigs = "run_rules u rules content content_type ?ctx []"
  let ?n = "sum_list (map (\<lambda>s. 1::int) (filter (\<lambda>s. level s = RED) ?sigs))"
  let ?business = "?ctx \<in> set [''partnership_offer'', ''client_inquiry'', ''vendor_proposal'']"
  obtain out where out:
    "ai_generate_summary u api_key post
       (make_ai_input content content_type ?ctx ?sigs ?n (fst (severity_of ?n))) = Inr out"
    using ai_generate_summary_total by blast
  have res: "res =
    \<lparr>overall_score = snd (snd (severity_of ?n)),
     overall_level = fst (snd (severity_of ?n)),
     signals = ?sigs,
     external_checks = [],
     summary = ai_summary out,
     whatYouMightMiss = ai_whatYouMightMiss out,
     recommendedActions = ai_actions out,
     businessPriority =
       (if ?business then Some (assess_business_priority ?sigs ?ctx (fst (severity_of ?n))) else None),
     companyAssessment =
       (if ?business
        then Some (assess_company u content
               (case re_find u url_pattern content of None \<Rightarrow> None | Some url \<Rightarrow> Some (scrape url)))
        else None),
     detectedContext = ?ctx,
     concernCount = ?n,
     severityLevel = fst (severity_of ?n)\<rparr>"
    using assms out
    by (simp add: analyze_def Let_def case_prod_unfold del: set_simps split: if_splits)
  show "signals res = ?sigs" by (simp add: res)
  show "concernCount res = sum_list (map (\<lambda>s. 1) (filter (\<lambda>s. level s = RED) (signals res)))"
    by (simp add: res)
  show "severityLevel res = fst (severity_of (concernCount res))" by (simp add: res)
  show "overall_score res = snd (snd (severity_of (concernCount res)))" by (simp add: res)
  show "detectedContext res = ?ctx" by (simp add: res)
  show "businessPriority res =
           (if detectedContext res \<in> set [''partnership_offer'', ''client_inquiry'', ''vendor_proposal'']
            then Some (assess_business_priority (signals res) (detectedContext res) (severityLevel res))
            else None)"
    by (simp add: res del: set_simps)
  show "companyAssessment res =
           (if detectedContext res \<in> set [''partnership_offer'', ''client_inquiry'', ''vendor_proposal'']
            then Some (assess_company u content
                   (case re_find u url_pattern content of None \<Rightarrow> None | Some url \<Rightarrow> Some (scrape url)))
            else None)"
    by (simp add: res del: set_simps)
  show "\<exists>out. ai_generate_summary u api_key post
             (make_ai_input content content_type (detectedContext res) (signals res)
                (concernCount res) (severityLevel res)) = Inr out \<and>
           summary res = ai_summary out \<and> whatYouMightMiss res = ai_whatYouMightMiss out \<and>
           recommendedActions res = ai_actions out"
    using out by (simp add: res)
qed

text \<open>
  Claim C1. \<open>analyze\<close> always returns a result. In it, \<open>concernCount\<close> is the number
  of red signals in the result's signal list, and severity level and overall score follow
  the count: 6 or more gives critical and 15, 3 to 5 gives high and 35, 1 or 2 gives
  moderate and 55, 0 gives low and 80.
\<close>

theorem analyze_concern_count_and_severity:
  "(\<exists>res. analyze u api_key post scrape content content_type = Inr res) \<and>
   (\<forall>res. analyze u api_key post scrape content content_type = Inr res \<longrightarrow>
      concernCount res = int (length (filter (\<lambda>s. level s = RED) (signals res))) \<and>
      (6 \<le> concernCount res \<longrightarrow> severityLevel res = ''critical'' \<and> overall_score res = 15) \<and>
      (3 \<le> concernCount res \<and> concernCount res \<le> 5 \<longrightarrow>
         severityLevel res = ''high'' \<and> overall_score res = 35) \<and>
      (1 \<le> concernCount res \<and> concernCount res \<le> 2 \<longrightarrow>
         severityLevel res = ''moderate'' \<and> overall_score res = 55) \<and>
      (concernCount res = 0 \<longrightarrow> severityLevel res = ''low'' \<and> overall_score res = 80))"
proof (intro conjI allI impI)
  show "\<exists>res. analyze u api_key post scrape content content_type = Inr res"
    by (rule analyze_total)
next
  fix res
  assume a: "analyze u api_key post scrape content content_type = Inr res"
  note f = analyze_fields [OF a]
  show "concernCount res = int (length (filter (\<lambda>s. level s = RED) (signals res)))"
    using f(2) by (simp add: sum_ones)
  { assume "6 \<le> concernCount res"
    then show "severityLevel res = ''critical''" and "overall_score res = 15"
      using f(3,4) by (simp_all add: severity_of_def) }
  { assume "3 \<le> concernCount res \<and> concernCount res \<le> 5"
    then show "severityLevel res = ''high''" and "overall_score res = 35"
      using f(3,4) by (simp_all add: severity_of_def) }
  { assume "1 \<le> concernCount res \<and> concernCount res \<le> 2"
    then show "severityLevel res = ''moderate''" and "overall_score res = 55"
      using f(3,4) by (simp_all add: severity_of_def) }
  { assume "concernCount res = 0"
    then show "severityLevel res = ''low''" and "overall_score res = 80"
      using f(3,4) by (simp_all add: severity_of_def) }
qed

lemma analyze_count_example:
  assumes "analyze u api_key post scrape content content_type = Inr res"
    and "map level (run_rules u rules content content_type (detect_context content content_type) []) = ls"
  shows "int (length (filter (\<lambda>s. level s = RED) (signals res))) =
         int (length (filter (\<lambda>l. l = RED) ls))"
proof -
  have "length (filter (\<lambda>s. level s = RED) (signals res)) =
        length (filter (\<lambda>l. l = RED) (map level (signals res)))"
    by (simp add: filter_map comp_def)
  then show ?thesis using analyze_fields(1) [OF assms(1)] assms(2) by simp
qed

lemma example_levels:
  "map level (run_rules u rules ''Hello there'' ''text'' (detect_context ''Hello there'' ''text'') []) = []"
  "map level (run_rules u rules ''Reply today'' ''text'' (detect_context ''Reply today'' ''text'') []) = [RED]"
  "map level (run_rules u rules ''User agreement: we sell data, no compensation, no jury.'' ''text''
     (detect_context ''User agreement: we sell data, no compensation, no jury.'' ''text'') []) =
   [RED, RED, RED]"
  "map level (run_rules u rules
     ''User agreement: act now. We sell data, void rewards, no jury, silence is consent, not liable for loss.''
     ''text''
     (detect_context
       ''User agreement: act now. We sell data, void rewards, no jury, silence is consent, not liable for loss.''
       ''text'') []) =
   [RED, RED, RED, RED, RED, RED]"
  by code_simp+

theorem analyze_concern_count_and_severity_witness:
  "\<forall>u.
    (\<exists>res. analyze u None (\<lambda>prompt. Raises) (\<lambda>url. ScrapeFailed []) ''Hello there'' ''text'' = Inr res \<and>
        concernCount res = 0 \<and> severityLevel res = ''low'' \<and> overall_score res = 80) \<and>
     (\<exists>res. analyze u None (\<lambda>prompt. Raises) (\<lambda>url. ScrapeFailed []) ''Reply today'' ''text'' = Inr res \<and>
        concernCount res = 1 \<and> severityLevel res = ''moderate'' \<and> overall_score res = 55) \<and>
     (\<exists>res. analyze u None (\<lambda>prompt. Raises) (\<lambda>url. ScrapeFailed [])
          ''User agreement: we sell data, no compensation, no jury.'' ''text'' = Inr res \<and>
        concernCount res = 3 \<and> severityLevel res = ''high'' \<and> overall_score res = 35) \<and>
     (\<exists>res. analyze u None (\<lambda>prompt. Raises) (\<lambda>url. ScrapeFailed [])
          ''User agreement: act now. We sell data, void rewards, no jury, silence is consent, not liable for loss.''
          ''text'' = Inr res \<and>
        concernCount res = 6 \<and> severityLevel res = ''critical'' \<and> overall_score res = 15)"
proof (rule allI)
  fix u
  show "(\<exists>res. analyze u None (\<lambda>prompt. Raises) (\<lambda>url. ScrapeFailed []) ''Hello there'' ''text'' = Inr res \<and>
        concernCount res = 0 \<and> severityLevel res = ''low'' \<and> overall_score res = 80) \<and>
     (\<exists>res. analyze u None (\<lambda>prompt. Raises) (\<lambda>url. ScrapeFailed []) ''Reply today'' ''text'' = Inr res \<and>
        concernCount res = 1 \<and> severityLevel res = ''moderate'' \<and> overall_score res = 55) \<and>
     (\<exists>res. analyze u None (\<lambda>prompt. Raises) (\<lambda>url. ScrapeFailed [])
          ''User agreement: we sell data, no compensation, no jury.'' ''text'' = Inr res \<and>
        concernCount res = 3 \<and> severityLevel res = ''high'' \<and> overall_score res = 35) \<and>
     (\<exists>res. analyze u None (\<lambda>prompt. Raises) (\<lambda>url. ScrapeFailed [])
          ''User agreement: act now. We sell data, void rewards, no jury, silence is consent, not liable for loss.''
          ''text'' = Inr res \<and>
        concernCount res = 6 \<and> severityLevel res = ''critical'' \<and> overall_score res = 15)"
  proof (intro conjI)
    let ?an = "analyze u None (\<lambda>prompt. Raises) (\<lambda>url. ScrapeFailed [])"
    note inst = analyze_concern_count_and_severity [of u None "\<lambda>prompt. Raises" "\<lambda>url. ScrapeFailed []"]
    show "\<exists>res. ?an ''Hello there'' ''text'' = Inr res \<and>
        concernCount res = 0 \<and> severityLevel res = ''low'' \<and> overall_score res = 80"
    proof -
      note t = inst [of "''Hello there''" "''text''"]
      from t obtain res where a: "?an ''Hello there'' ''text'' = Inr res" by blast
      with t have c: "concernCount res = int (length (filter (\<lambda>s. level s = RED) (signals res)))"
        and s: "concernCount res = 0 \<longrightarrow> severityLevel res = ''low'' \<and> overall_score res = 80"
        by blast+
      from c analyze_count_example [OF a example_levels(1)] have "concernCount res = 0" by simp
      with a s show ?thesis by blast
    qed
    show "\<exists>res. ?an ''Reply today'' ''text'' = Inr res \<and>
        concernCount res = 1 \<and> severityLevel res = ''moderate'' \<and> overall_score res = 55"
    proof -
      note t = inst [of "''Reply today''" "''text''"]
      from t obtain res where a: "?an ''Reply today'' ''text'' = Inr res" by blast
      with t have c: "concernCount res = int (length (filter (\<lambda>s. level s = RED) (signals res)))"
        and s: "1 \<le> concernCount res \<and> concernCount res \<le> 2 \<longrightarrow>
                severityLevel res = ''moderate'' \<and> overall_score res = 55"
        by blast+
      from c analyze_count_example [OF a example_levels(2)] have n: "concernCount res = 1" by simp
      then have "1 \<le> concernCount res \<and> concernCount res \<le> 2" by simp
      with a s n show ?thesis by blast
    qed
    show "\<exists>res. ?an ''User agreement: we sell data, no compensation, no jury.'' ''text'' = Inr res \<and>
        concernCount res = 3 \<and> severityLevel res = ''high'' \<and> overall_score res = 35"
    proof -
      note t = inst [of "''User agreement: we sell data, no compensation, no jury.''" "''text''"]
      from t obtain res where
        a: "?an ''User agreement: we sell data, no compensation, no jury.'' ''text'' = Inr res"
        by blast
      with t have c: "concernCount res = int (length (filter (\<lambda>s. level s = RED) (signals res)))"
        and s: "3 \<le> concernCount res \<and> concernCount res \<le> 5 \<longrightarrow>
                severityLevel res = ''high'' \<and> overall_score res = 35"
        by blast+
      from c analyze_count_example [OF a example_levels(3)] have n: "concernCount res = 3" by simp
      then have "3 \<le> concernCount res \<and> concernCount res \<le> 5" by simp
      with a s n show ?thesis by blast
    qed
    show "\<exists>res. ?an
          ''User agreement: act now. We sell data, void rewards, no jury, silence is consent, not liable for loss.''
          ''text'' = Inr res \<and>
        concernCount res = 6 \<and> severityLevel res = ''critical'' \<and> overall_score res = 15"
    proof -
      note t = inst [of
        "''User agreement: act now. We sell data, void rewards, no jury, silence is consent, not liable for loss.''"
        "''text''"]
      from t obtain res where
        a: "?an
          ''User agreement: act now. We sell data, void rewards, no jury, silence is consent, not liable for loss.''
          ''text'' = Inr res"
        by blast
      with t have c: "concernCount res = int (length (filter (\<lambda>s. level s = RED) (signals res)))"
        and s: "6 \<le> concernCount res \<longrightarrow> severityLevel res = ''critical'' \<and> overall_score res = 15"
        by blast+
      from c analyze_count_example [OF a example_levels(4)] have n: "concernCount res = 6" by simp
      then have "6 \<le> concernCount res" by simp
      with a s n show ?thesis by blast
    qed
  qed
qed

text \<open>
  Claim C2. In every result of \<open>analyze\<close> the detected context is the one
  \<open>detect_context\<close> gives; \<open>businessPriority\<close> and \<open>companyAssessment\<close> are present
  exactly when that context is \<open>partnership_offer\<close>, \<open>client_inquiry\<close> or
  \<open>vendor_proposal\<close>, and both are absent for \<open>legal_agreement\<close> and
  \<open>consumer_message\<close>.
\<close>

theorem business_assessment_iff:
  "\<forall>res. analyze u api_key post scrape content content_type = Inr res \<longrightarrow>
     detectedContext res = detect_context content content_type \<and>
     (businessPriority res \<noteq> None \<longleftrightarrow>
        detectedContext res \<in> {''partnership_offer'', ''client_inquiry'', ''vendor_proposal''}) \<and>
     (companyAssessment res \<noteq> None \<longleftrightarrow>
        detectedContext res \<in> {''partnership_offer'', ''client_inquiry'', ''vendor_proposal''}) \<and>
     (detectedContext res \<in> {''legal_agreement'', ''consumer_message''} \<longrightarrow>
        businessPriority res = None \<and> companyAssessment res = None)"
proof (intro allI impI)
  fix res
  assume a: "analyze u api_key post scrape content content_type = Inr res"
  note f = analyze_fields [OF a]
  have b: "businessPriority res \<noteq> None \<longleftrightarrow>
        detectedContext res \<in> {''partnership_offer'', ''client_inquiry'', ''vendor_proposal''}"
    unfolding f(6) by simp
  have c: "companyAssessment res \<noteq> None \<longleftrightarrow>
        detectedContext res \<in> {''partnership_offer'', ''client_inquiry'', ''vendor_proposal''}"
    unfolding f(7) by simp
  have d: "detectedContext res \<in> {''legal_agreement'', ''consumer_message''} \<longrightarrow>
        detectedContext res \<notin> {''partnership_offer'', ''client_inquiry'', ''vendor_proposal''}"
    by auto
  from b c d f(5) show "detectedContext res = detect_context content content_type \<and>
     (businessPriority res \<noteq> None \<longleftrightarrow>
        detectedContext res \<in> {''partnership_offer'', ''client_inquiry'', ''vendor_proposal''}) \<and>
     (companyAssessment res \<noteq> None \<longleftrightarrow>
        detectedContext res \<in> {''partnership_offer'', ''client_inquiry'', ''vendor_proposal''}) \<and>
     (detectedContext res \<in> {''legal_agreement'', ''consumer_message''} \<longrightarrow>
        businessPriority res = None \<and> companyAssessment res = None)"
    by blast
qed

theorem business_assessment_iff_witness:
  "\<forall>u.
    (\<exists>res. analyze u None (\<lambda>prompt. Raises) (\<lambda>url. ScrapeFailed []) ''Our pricing'' ''text'' = Inr res \<and>
        detectedContext res = ''vendor_proposal'' \<and>
        businessPriority res \<noteq> None \<and> companyAssessment res \<noteq> None) \<and>
     (\<exists>res. analyze u None (\<lambda>prompt. Raises) (\<lambda>url. ScrapeFailed []) ''We are hiring'' ''text'' = Inr res \<and>
        detectedContext res = ''consumer_message'' \<and>
        businessPriority res = None \<and> companyAssessment res = None)"
proof (rule allI)
  fix u
  show "(\<exists>res. analyze u None (\<lambda>prompt. Raises) (\<lambda>url. ScrapeFailed []) ''Our pricing'' ''text'' = Inr res \<and>
        detectedContext res = ''vendor_proposal'' \<and>
        businessPriority res \<noteq> None \<and> companyAssessment res \<noteq> None) \<and>
     (\<exists>res. analyze u None (\<lambda>prompt. Raises) (\<lambda>url. ScrapeFailed []) ''We are hiring'' ''text'' = Inr res \<and>
        detectedContext res = ''consumer_message'' \<and>
        businessPriority res = None \<and> companyAssessment res = None)"
  proof (intro conjI)
    let ?an = "analyze u None (\<lambda>prompt. Raises) (\<lambda>url. ScrapeFailed [])"
    note inst = business_assessment_iff [of u None "\<lambda>prompt. Raises" "\<lambda>url. ScrapeFailed []"]
    show "\<exists>res. ?an ''Our pricing'' ''text'' = Inr res \<and>
        detectedContext res = ''vendor_proposal'' \<and>
        businessPriority res \<noteq> None \<and> companyAssessment res \<noteq> None"
    proof -
      obtain res where a: "?an ''Our pricing'' ''text'' = Inr res"
        using analyze_total by blast
      with inst [of "''Our pricing''" "''text''"]
      have p: "detectedContext res = detect_context ''Our pricing'' ''text''"
        "businessPriority res \<noteq> None \<longleftrightarrow>
          detectedContext res \<in> {''partnership_offer'', ''client_inquiry'', ''vendor_proposal''}"
        "companyAssessment res \<noteq> None \<longleftrightarrow>
          detectedContext res \<in> {''partnership_offer'', ''client_inquiry'', ''vendor_proposal''}"
        by blast+
      from p(1) have c: "detectedContext res = ''vendor_proposal''" by (simp add: ex_vendor)
      then have "detectedContext res \<in> {''partnership_offer'', ''client_inquiry'', ''vendor_proposal''}"
        by simp
      with a c p(2,3) show ?thesis by blast
    qed
    show "\<exists>res. ?an ''We are hiring'' ''text'' = Inr res \<and>
        detectedContext res = ''consumer_message'' \<and>
        businessPriority res = None \<and> companyAssessment res = None"
    proof -
      obtain res where a: "?an ''We are hiring'' ''text'' = Inr res"
        using analyze_total by blast
      with inst [of "''We are hiring''" "''text''"]
      have p: "detectedContext res = detect_context ''We are hiring'' ''text''"
        "detectedContext res \<in> {''legal_agreement'', ''consumer_message''} \<longrightarrow>
          businessPriority res = None \<and> companyAssessment res = None"
        by blast+
      from p(1) have c: "detectedContext res = ''consumer_message''" by (simp add: ex_consumer)
      then have "detectedContext res \<in> {''legal_agreement'', ''consumer_message''}" by simp
      with a c p(2) show ?thesis by blast
    qed
  qed
qed

lemma severity_of_determine:
  "fst (severity_of (ai_concernCount input_data)) = determine_severity input_data"
  by (simp add: severity_of_def determine_severity_def Let_def)

text \<open>
  Claim C8. For every concern count the severity level of the threshold chain in
  \<open>analyze\<close> equals the one \<open>_determine_severity\<close> computes. In a result of
  \<open>analyze\<close>, the narrative comes from the generator run on the input built from the
  result's context, signals, concern count and severity level; the severity the generator
  derives from that input is the result's severity level, and the "what you might miss"
  text, the actions and (without an API key) the summary are the templates of that
  severity level.
\<close>

theorem severity_derivations_agree:
  "fst (severity_of (ai_concernCount input_data)) = determine_severity input_data \<and>
   (\<forall>res. analyze u api_key post scrape content content_type = Inr res \<longrightarrow>
      (\<exists>out. ai_generate_summary u api_key post
              (make_ai_input content content_type (detectedContext res) (signals res)
                 (concernCount res) (severityLevel res)) = Inr out \<and>
            summary res = ai_summary out \<and> whatYouMightMiss res = ai_whatYouMightMiss out \<and>
            recommendedActions res = ai_actions out) \<and>
      determine_severity
        (make_ai_input content content_type (detectedContext res) (signals res)
           (concernCount res) (severityLevel res)) = severityLevel res \<and>
      whatYouMightMiss res =
        build_what_you_might_miss (map to_ai_signal (enumerate 0 (signals res)))
          (detectedContext res) (severityLevel res) \<and>
      recommendedActions res =
        build_actions (detectedContext res) (severityLevel res)
          (map to_ai_signal (enumerate 0 (signals res))) \<and>
      (\<not> truthy api_key \<longrightarrow>
         summary res =
           build_compound_explanation (map to_ai_signal (enumerate 0 (signals res)))
             (detectedContext res) (severityLevel res)))"
proof (intro conjI allI impI)
  show "fst (severity_of (ai_concernCount input_data)) = determine_severity input_data"
    by (rule severity_of_determine)
next
  fix res
  assume a: "analyze u api_key post scrape content content_type = Inr res"
  note f = analyze_fields [OF a]
  let ?inp = "make_ai_input content content_type (detectedContext res) (signals res)
                 (concernCount res) (severityLevel res)"
  have inp: "ai_concernCount ?inp = concernCount res"
    "ai_detectedContext ?inp = detectedContext res"
    "ai_signals ?inp = map to_ai_signal (enumerate 0 (signals res))"
    by (simp_all add: make_ai_input_def)
  show "\<exists>out. ai_generate_summary u api_key post ?inp = Inr out \<and>
            summary res = ai_summary out \<and> whatYouMightMiss res = ai_whatYouMightMiss out \<and>
            recommendedActions res = ai_actions out"
    by (rule f(8))
  show s: "determine_severity ?inp = severityLevel res"
    using severity_of_determine [of ?inp] f(3) inp(1) by simp
  from f(8) obtain out where out: "ai_generate_summary u api_key post ?inp = Inr out"
    and eq: "summary res = ai_summary out" "whatYouMightMiss res = ai_whatYouMightMiss out"
      "recommendedActions res = ai_actions out"
    by blast
  note t = ai_generate_summary_templates [OF out]
  show "whatYouMightMiss res =
        build_what_you_might_miss (map to_ai_signal (enumerate 0 (signals res)))
          (detectedContext res) (severityLevel res)"
    using t(1) eq(2) inp s by simp
  show "recommendedActions res =
        build_actions (detectedContext res) (severityLevel res)
          (map to_ai_signal (enumerate 0 (signals res)))"
    using t(2) eq(3) inp s by simp
  { assume "\<not> truthy api_key"
    from t(3) [OF this] show "summary res =
           build_compound_explanation (map to_ai_signal (enumerate 0 (signals res)))
             (detectedContext res) (severityLevel res)"
      using eq(1) inp s by simp }
qed

lemma reply_today_signals:
  "run_rules u rules ''Reply today'' ''text'' (detect_context ''Reply today'' ''text'') [] =
     [\<lparr>name = ''High-Pressure Tactics'', level = RED,
       message = ''Urgency combined with action demands is a common social engineering pattern.'',
       confidence = 0.85\<rparr>]"
  by code_simp

theorem severity_derivations_agree_witness:
  "\<forall>u.
    \<not> truthy None \<and>
     (\<exists>res. analyze u None (\<lambda>prompt. Raises) (\<lambda>url. ScrapeFailed []) ''Reply today'' ''text'' = Inr res \<and>
        concernCount res = 1 \<and>
        severityLevel res = ''moderate'' \<and>
        determine_severity
          (make_ai_input ''Reply today'' ''text'' (detectedContext res) (signals res)
             (concernCount res) (severityLevel res)) = ''moderate'' \<and>
        summary res =
          ''Detected 1 area of concern: High-Pressure Tactics. These provisions warrant careful review before proceeding.'')"
proof (rule allI)
  fix u
  show "\<not> truthy None \<and>
     (\<exists>res. analyze u None (\<lambda>prompt. Raises) (\<lambda>url. ScrapeFailed []) ''Reply today'' ''text'' = Inr res \<and>
        concernCount res = 1 \<and>
        severityLevel res = ''moderate'' \<and>
        determine_severity
          (make_ai_input ''Reply today'' ''text'' (detectedContext res) (signals res)
             (concernCount res) (severityLevel res)) = ''moderate'' \<and>
        summary res =
          ''Detected 1 area of concern: High-Pressure Tactics. These provisions warrant careful review before proceeding.'')"
  proof -
    let ?an = "analyze u None (\<lambda>prompt. Raises) (\<lambda>url. ScrapeFailed [])"
    have k: "\<not> truthy None" by (simp add: truthy_def)
    obtain res where a: "?an ''Reply today'' ''text'' = Inr res"
      using analyze_total by blast
    let ?inp = "make_ai_input ''Reply today'' ''text'' (detectedContext res) (signals res)
             (concernCount res) (severityLevel res)"
    note inst = severity_derivations_agree [of ?inp u None "\<lambda>prompt. Raises" "\<lambda>url. ScrapeFailed []"
        "''Reply today''" "''text''"]
    from inst a have p: "determine_severity ?inp = severityLevel res"
      "\<not> truthy None \<longrightarrow> summary res =
         build_compound_explanation (map to_ai_signal (enumerate 0 (signals res)))
           (detectedContext res) (severityLevel res)"
      by blast+
    from inst have q: "fst (severity_of (ai_concernCount ?inp)) = determine_severity ?inp"
      by blast
    have sigs: "signals res =
       [\<lparr>name = ''High-Pressure Tactics'', level = RED,
         message = ''Urgency combined with action demands is a common social engineering pattern.'',
         confidence = 0.85\<rparr>]"
      using analyze_fields(1) [OF a] reply_today_signals by simp
    have n: "concernCount res = 1"
      using analyze_fields(2) [OF a] sigs by simp
    have d: "determine_severity ?inp = ''moderate''"
      unfolding q [symmetric] by (simp add: make_ai_input_def n severity_of_def)
    with p(1) have s: "severityLevel res = ''moderate''" by simp
    from p(2) k have "summary res =
         build_compound_explanation (map to_ai_signal (enumerate 0 (signals res)))
           (detectedContext res) (severityLevel res)" by blast
    then have u: "summary res =
         ''Detected 1 area of concern: High-Pressure Tactics. These provisions warrant careful review before proceeding.''"
      unfolding s sigs
      by (simp add: build_compound_explanation_def to_ai_signal_def str_int_def Let_def)
    from k a n s d u show ?thesis by blast
  qed
qed

section \<open>Properties of the summary endpoint\<close>

lemma summary_try_Inr:
  assumes "summary_try u validate_str api_key post request = Inr r"
  shows "\<exists>converted out.
           convert_signals validate_str (req_signals request) [] = Inr converted \<and>
           ai_generate_summary u api_key post (request_ai_input request converted) = Inr out \<and>
           r = \<lparr>resp_summary = ai_summary out, modelUsed = ''trustlens-v3'', fallback = False\<rparr>"
  using assms by (auto simp: summary_try_def split: sum.splits)

text \<open>
  Claim C9. When the processing of a request to the summary endpoint raises an exception,
  the endpoint returns the fallback response: the summary "Analysis complete. Review the
  detected signals.", \<open>modelUsed\<close> "fallback" and \<open>fallback\<close> true. When the processing
  succeeds, the endpoint returns \<open>fallback\<close> false with the summary of the narrative
  generator.
\<close>

theorem summary_endpoint_fallback:
  "(\<forall>e. summary_try u validate_str api_key post request = Inl e \<longrightarrow>
      api_generate_summary u validate_str api_key post request =
        \<lparr>resp_summary = ''Analysis complete. Review the detected signals.'',
         modelUsed = ''fallback'', fallback = True\<rparr>) \<and>
   (\<forall>r. summary_try u validate_str api_key post request = Inr r \<longrightarrow>
      api_generate_summary u validate_str api_key post request = r \<and>
      fallback r = False \<and>
      (\<exists>converted out.
         convert_signals validate_str (req_signals request) [] = Inr converted \<and>
         ai_generate_summary u api_key post (request_ai_input request converted) = Inr out \<and>
         resp_summary r = ai_summary out))"
proof (intro conjI allI impI)
  fix e
  assume "summary_try u validate_str api_key post request = Inl e"
  then show "api_generate_summary u validate_str api_key post request =
        \<lparr>resp_summary = ''Analysis complete. Review the detected signals.'',
         modelUsed = ''fallback'', fallback = True\<rparr>"
    by (simp add: api_generate_summary_def)
next
  fix r
  assume a: "summary_try u validate_str api_key post request = Inr r"
  then show "api_generate_summary u validate_str api_key post request = r"
    by (simp add: api_generate_summary_def)
  from summary_try_Inr [OF a] show "fallback r = False" by auto
  from summary_try_Inr [OF a] show "\<exists>converted out.
         convert_signals validate_str (req_signals request) [] = Inr converted \<and>
         ai_generate_summary u api_key post (request_ai_input request converted) = Inr out \<and>
         resp_summary r = ai_summary out"
    by auto
qed

lemma bad_request_raises:
  "summary_try u strict_str None (\<lambda>prompt. Raises) bad_request = Inl ValidationError"
  by (simp add: summary_try_def bad_request_def make_ai_signal_def dict_get_def strict_str_def)

lemma good_request_returns:
  "summary_try u strict_str None (\<lambda>prompt. Raises) good_request =
     Inr \<lparr>resp_summary =
            ''Detected 1 area of concern: Class Action Waiver. These provisions warrant careful review before proceeding.'',
          modelUsed = ''trustlens-v3'', fallback = False\<rparr>"
  by code_simp

theorem summary_endpoint_fallback_witness:
  "\<forall>u.
    api_generate_summary u strict_str None (\<lambda>prompt. Raises) bad_request =
       \<lparr>resp_summary = ''Analysis complete. Review the detected signals.'',
        modelUsed = ''fallback'', fallback = True\<rparr> \<and>
     api_generate_summary u strict_str None (\<lambda>prompt. Raises) good_request =
       \<lparr>resp_summary =
          ''Detected 1 area of concern: Class Action Waiver. These provisions warrant careful review before proceeding.'',
        modelUsed = ''trustlens-v3'', fallback = False\<rparr>"
proof (rule allI)
  fix u
  show "api_generate_summary u strict_str None (\<lambda>prompt. Raises) bad_request =
       \<lparr>resp_summary = ''Analysis complete. Review the detected signals.'',
        modelUsed = ''fallback'', fallback = True\<rparr> \<and>
     api_generate_summary u strict_str None (\<lambda>prompt. Raises) good_request =
       \<lparr>resp_summary =
          ''Detected 1 area of concern: Class Action Waiver. These provisions warrant careful review before proceeding.'',
        modelUsed = ''trustlens-v3'', fallback = False\<rparr>"
    using summary_endpoint_fallback [of u strict_str None "\<lambda>prompt. Raises" bad_request]
      summary_endpoint_fallback [of u strict_str None "\<lambda>prompt. Raises" good_request]
      bad_request_raises good_request_returns
    by blast
qed

end
